theory Spec2Isabelle
  imports Main
begin

section \<open>Event authorization of the API: data model\<close>

text \<open>
  The handlers and permission checkers of the event API (\<^verbatim>\<open>api/event.go\<close>) are embedded
  as HOL functions. Everything the file imports from other packages (permission
  evaluation, the resource stores, the event store) is a field of the record \<open>env\<close>,
  so every theorem holds for any behaviour of these collaborators.
\<close>

subsection \<open>Permission contexts and schemes\<close>

text \<open>
  Modelled from the spec: the context types of package \<^verbatim>\<open>permission\<close> (section 3 of the
  specification lists the closed enumeration). The file itself names \<open>CtxGlobal\<close>,
  \<open>CtxApp\<close>, \<open>CtxTeam\<close>, \<open>CtxPool\<close>, \<open>CtxIaaS\<close>, \<open>CtxService\<close> and
  \<open>CtxServiceInstance\<close>.
\<close>

datatype contextType =
  CtxGlobal | CtxApp | CtxTeam | CtxUser | CtxPool | CtxIaaS | CtxService
  | CtxServiceInstance | CtxRole

text \<open>\<^verbatim>\<open>permission.Context(ctxType, value)\<close> builds a context; its fields are
  \<^verbatim>\<open>CtxType\<close> and \<^verbatim>\<open>Value\<close>.\<close>

datatype PermissionContext = Context (CtxType: contextType) (CtxValue: string)

text \<open>\<^verbatim>\<open>permission.Contexts(ctxType, values)\<close>: one context of the type per value.\<close>

definition Contexts :: "contextType \<Rightarrow> string list \<Rightarrow> PermissionContext list" where
  "Contexts ty vs = map (Context ty) vs"

text \<open>The permission schemes the file names.\<close>

datatype PermissionScheme =
  PermAppReadEvents | PermAppUpdateEvents
  | PermTeamReadEvents | PermTeamUpdateEvents
  | PermServiceReadEvents | PermServiceUpdateEvents
  | PermServiceInstanceReadEvents | PermServiceInstanceUpdateEvents
  | PermPoolReadEvents | PermPoolUpdateEvents
  | PermUserReadEvents | PermUserUpdateEvents
  | PermMachineReadEvents | PermMachineUpdateEvents
  | PermRoleReadEvents | PermRoleUpdateEvents

text \<open>
  Modelled from the spec: the actor (\<^verbatim>\<open>auth.Token\<close>), an identity holding permissions
  scoped to contexts. \<^verbatim>\<open>t.GetUserName()\<close> is the field \<open>userName\<close>.
\<close>

record token =
  userName :: string
  permissions :: "(PermissionScheme \<times> PermissionContext) list"

subsection \<open>Events, targets and filters\<close>

text \<open>
  \<^verbatim>\<open>event.TargetType\<close> is a string type in the source; the ten constants the registry
  names are constructors, and \<open>TargetTypeOther\<close> stands for any other string.
\<close>

datatype TargetType =
  TargetTypeApp | TargetTypeTeam | TargetTypeService | TargetTypeServiceInstance
  | TargetTypePool | TargetTypeUser | TargetTypeContainer | TargetTypeNode
  | TargetTypeIaas | TargetTypeRole | TargetTypeOther string

record Target =
  Type :: TargetType
  Value :: string

text \<open>
  \<^verbatim>\<open>event.TargetFilter{Type, Values}\<close>. \<open>Values\<close> is a Go slice: \<open>None\<close> is the nil
  slice, \<open>Some xs\<close> a non-nil slice (\<open>Some []\<close> is \<^verbatim>\<open>[]string{}\<close>). The source sets
  \<^verbatim>\<open>allowed.Values = nil\<close> for a Global context: a nil slice is the unrestricted scope.
\<close>

record TargetFilter =
  FilterType :: TargetType
  Values :: "string list option"

text \<open>Go's \<^verbatim>\<open>append(s, x)\<close>: appending to the nil slice gives a non-nil one.\<close>

fun append_go :: "'a list option \<Rightarrow> 'a \<Rightarrow> 'a list option" where
  "append_go None x = Some [x]"
| "append_go (Some xs) x = Some (xs @ [x])"

text \<open>An event; only its target is read here, \<open>UniqueID\<close> stands for the rest.\<close>

record Event =
  UniqueID :: string
  Target :: Target

text \<open>
  \<^verbatim>\<open>event.Filter\<close>: \<open>AllowedTargets\<close> is the slice the permission layer writes
  (\<open>None\<close> is nil); \<open>Fields\<close> stands for all the fields decoded from the request.
\<close>

record 'q Filter =
  Fields :: 'q
  AllowedTargets :: "TargetFilter list option"

subsection \<open>Entities of the resource stores\<close>

record App =
  AppName :: string
  AppTeams :: "string list"
  AppPool :: string

record Unit =
  ID :: string

record Team =
  TeamName :: string

record Service =
  SvcName :: string
  OwnerTeams :: "string list"

record ServiceInstance =
  ServiceName :: string
  InstanceName :: string
  InstanceTeams :: "string list"

record Pool =
  PoolName :: string

record Node =
  Address :: string
  NodePool :: string

subsection \<open>Errors and requests\<close>

text \<open>
  \<open>HTTP\<close> is \<^verbatim>\<open>errors.HTTP{Code, Message}\<close>; \<open>ErrUnauthorized\<close> and \<open>ErrNotCancelable\<close>
  are the two error values the file compares with or returns by name; \<open>Err\<close> is any
  other error a collaborator returns.
\<close>

datatype error =
  HTTP nat string | ErrUnauthorized | ErrNotCancelable | Err string

definition StatusNoContent :: nat where "StatusNoContent = 204"
definition StatusBadRequest :: nat where "StatusBadRequest = 400"
definition StatusNotFound :: nat where "StatusNotFound = 404"

text \<open>The request: \<^verbatim>\<open>r.URL.Query().Get(":uuid")\<close> and \<^verbatim>\<open>r.FormValue("reason")\<close>.\<close>

record request =
  query_uuid :: string
  form_reason :: string

text \<open>What a handler wrote on success: a status line or the JSON encoding of an event.\<close>

datatype written = WriteHeader nat | Encode Event

datatype checkKind = readCheckKind | updateCheckKind

subsection \<open>Collaborators\<close>

text \<open>
  The functions of other packages the file calls. \<open>appList env contexts\<close> is
  \<^verbatim>\<open>app.List(appFilterByContext(contexts, nil))\<close>; \<open>ListNodes env = None\<close> says that
  \<^verbatim>\<open>app.Provisioner\<close> is not a \<^verbatim>\<open>provision.NodeProvisioner\<close>; the argument of the
  node listing is the optional address filter (\<open>None\<close> is nil). \<open>Error env err\<close> is
  \<^verbatim>\<open>err.Error()\<close>.
\<close>

record env =
  ContextsForPermission :: "token \<Rightarrow> PermissionScheme \<Rightarrow> PermissionContext list"
  Check :: "token \<Rightarrow> PermissionScheme \<Rightarrow> PermissionContext list \<Rightarrow> bool"
  appList :: "PermissionContext list \<Rightarrow> error + App list"
  Units :: "App \<Rightarrow> error + Unit list"
  provisionReadableServices :: "token \<Rightarrow> PermissionContext list \<Rightarrow> error + Service list"
  readableInstances ::
    "token \<Rightarrow> PermissionContext list \<Rightarrow> string \<Rightarrow> string \<Rightarrow> error + ServiceInstance list"
  ListNodes :: "(string list option \<Rightarrow> error + Node list) option"
  getAppFromContext :: "string \<Rightarrow> request \<Rightarrow> error + App"
  GetTeam :: "string \<Rightarrow> error + Team"
  getService :: "string \<Rightarrow> error + Service"
  getServiceInstanceOrError :: "string \<Rightarrow> string \<Rightarrow> error + ServiceInstance"
  GetPoolByName :: "string \<Rightarrow> error + Pool"
  GetAppFromUnitID :: "string \<Rightarrow> error + App"
  IsObjectIdHex :: "string \<Rightarrow> bool"
  GetByID :: "string \<Rightarrow> error + Event"
  TryCancel :: "Event \<Rightarrow> string \<Rightarrow> string \<Rightarrow> error option"
  Error :: "error \<Rightarrow> string"

text \<open>
  Modelled from the spec: \<^verbatim>\<open>serviceIntancePermName\<close>, defined in another file of the
  package; the identity of a service instance is the composite
  "serviceName/instanceName".
\<close>

definition serviceIntancePermName :: "string \<Rightarrow> string \<Rightarrow> string" where
  "serviceIntancePermName serviceName instanceName = serviceName @ ''/'' @ instanceName"

text \<open>
  \<^verbatim>\<open>strings.SplitN(s, "/", 2)\<close> of the Go library: the part before the first separator
  and the part after it, or the string alone when it has no separator.
\<close>

definition SplitN2 :: "string \<Rightarrow> string list" where
  "SplitN2 s =
     (if CHR ''/'' \<in> set s
      then [takeWhile (\<lambda>c. c \<noteq> CHR ''/'') s, tl (dropWhile (\<lambda>c. c \<noteq> CHR ''/'') s)]
      else [s])"

section \<open>The permission checkers: filter\<close>

text \<open>
  A filter operation returns \<^verbatim>\<open>(*event.TargetFilter, error)\<close>: \<open>Inl err\<close> is the error,
  \<open>Inr None\<close> the nil filter, \<open>Inr (Some f)\<close> a filter.
\<close>

text \<open>The loop \<^verbatim>\<open>for _, x := range xs { allowed.Values = append(allowed.Values, x) }\<close>.\<close>

definition append_all :: "'a list option \<Rightarrow> 'a list \<Rightarrow> 'a list option" where
  "append_all vals xs = foldl append_go vals xs"

definition appPermChecker_filter :: "env \<Rightarrow> token \<Rightarrow> error + TargetFilter option" where
  "appPermChecker_filter env t =
     (let contexts = ContextsForPermission env t PermAppReadEvents in
      if length contexts = 0 then Inr None
      else case appList env contexts of
          Inl err \<Rightarrow> Inl err
        | Inr apps \<Rightarrow>
            if length apps = 0 then Inr None
            else Inr (Some \<lparr>FilterType = TargetTypeApp,
                             Values = append_all None (map AppName apps)\<rparr>))"

text \<open>
  The loop of the Team, Pool and IaaS checkers, which differ in the context type \<open>own\<close>
  they collect: a Global context sets the values to nil and leaves the loop, a context
  of the own type appends its value, any other context is skipped.
\<close>

fun collect_contexts ::
  "contextType \<Rightarrow> PermissionContext list \<Rightarrow> string list option \<Rightarrow> string list option" where
  "collect_contexts own [] vals = vals"
| "collect_contexts own (ctx # rest) vals =
     (if CtxType ctx = CtxGlobal then None
      else if CtxType ctx = own then collect_contexts own rest (append_go vals (CtxValue ctx))
      else collect_contexts own rest vals)"

definition teamPermChecker_filter :: "env \<Rightarrow> token \<Rightarrow> error + TargetFilter option" where
  "teamPermChecker_filter env t =
     (let contexts = ContextsForPermission env t PermTeamReadEvents in
      if length contexts = 0 then Inr None
      else Inr (Some \<lparr>FilterType = TargetTypeTeam,
                       Values = collect_contexts CtxTeam contexts None\<rparr>))"

definition servicePermChecker_filter :: "env \<Rightarrow> token \<Rightarrow> error + TargetFilter option" where
  "servicePermChecker_filter env t =
     (let contexts = ContextsForPermission env t PermServiceReadEvents in
      if length contexts = 0 then Inr None
      else case provisionReadableServices env t contexts of
          Inl err \<Rightarrow> Inl err
        | Inr services \<Rightarrow>
            if length services = 0 then Inr None
            else Inr (Some \<lparr>FilterType = TargetTypeService,
                             Values = append_all None (map SvcName services)\<rparr>))"

definition serviceInstancePermChecker_filter ::
  "env \<Rightarrow> token \<Rightarrow> error + TargetFilter option" where
  "serviceInstancePermChecker_filter env t =
     (let contexts = ContextsForPermission env t PermServiceInstanceReadEvents in
      if length contexts = 0 then Inr None
      else case readableInstances env t contexts '''' '''' of
          Inl err \<Rightarrow> Inl err
        | Inr instances \<Rightarrow>
            if length instances = 0 then Inr None
            else Inr (Some \<lparr>FilterType = TargetTypeServiceInstance,
                             Values = append_all None
                               (map (\<lambda>s. serviceIntancePermName (ServiceName s) (InstanceName s))
                                  instances)\<rparr>))"

definition poolPermChecker_filter :: "env \<Rightarrow> token \<Rightarrow> error + TargetFilter option" where
  "poolPermChecker_filter env t =
     (let contexts = ContextsForPermission env t PermPoolReadEvents in
      if length contexts = 0 then Inr None
      else Inr (Some \<lparr>FilterType = TargetTypePool,
                       Values = collect_contexts CtxPool contexts None\<rparr>))"

text \<open>
  The loop of the User and Role checkers: a Global context sets the values to nil and
  leaves the loop; nothing is appended.
\<close>

fun global_resets ::
  "PermissionContext list \<Rightarrow> string list option \<Rightarrow> string list option" where
  "global_resets [] vals = vals"
| "global_resets (ctx # rest) vals =
     (if CtxType ctx = CtxGlobal then None else global_resets rest vals)"

definition userPermChecker_filter :: "env \<Rightarrow> token \<Rightarrow> error + TargetFilter option" where
  "userPermChecker_filter env t =
     (let allowed = \<lparr>FilterType = TargetTypeUser, Values = Some [userName t]\<rparr>;
          contexts = ContextsForPermission env t PermUserReadEvents in
      if length contexts = 0 then Inr (Some allowed)
      else Inr (Some (allowed\<lparr>Values := global_resets contexts (Values allowed)\<rparr>)))"

definition iaasPermChecker_filter :: "env \<Rightarrow> token \<Rightarrow> error + TargetFilter option" where
  "iaasPermChecker_filter env t =
     (let contexts = ContextsForPermission env t PermMachineReadEvents in
      if length contexts = 0 then Inr None
      else Inr (Some \<lparr>FilterType = TargetTypeIaas,
                       Values = collect_contexts CtxIaaS contexts None\<rparr>))"

text \<open>The loop over the applications: the units of each, any error ends it.\<close>

fun container_units :: "env \<Rightarrow> App list \<Rightarrow> string list option \<Rightarrow> error + string list option" where
  "container_units env [] vals = Inr vals"
| "container_units env (a # rest) vals =
     (case Units env a of
        Inl err \<Rightarrow> Inl err
      | Inr units \<Rightarrow> container_units env rest (append_all vals (map ID units)))"

definition containerPermChecker_filter :: "env \<Rightarrow> token \<Rightarrow> error + TargetFilter option" where
  "containerPermChecker_filter env t =
     (let contexts = ContextsForPermission env t PermAppReadEvents in
      if length contexts = 0 then Inr None
      else case appList env contexts of
          Inl err \<Rightarrow> Inl err
        | Inr apps \<Rightarrow>
            if length apps = 0 then Inr None
            else (case container_units env apps (Some []) of
                Inl err \<Rightarrow> Inl err
              | Inr vals \<Rightarrow> Inr (Some \<lparr>FilterType = TargetTypeContainer, Values = vals\<rparr>)))"

text \<open>
  The loop of the Node checker. \<open>nodes\<close> is the variable of the same name, nil at first
  (the nil and the empty slice are both \<open>[]\<close>: the node listing is asked again while
  nothing was listed, and answers the same). Without a node provisioner the variable
  stays nil.
\<close>

fun node_contexts ::
  "env \<Rightarrow> PermissionContext list \<Rightarrow> Node list \<Rightarrow> string list option
    \<Rightarrow> error + string list option" where
  "node_contexts env [] nodes vals = Inr vals"
| "node_contexts env (ctx # rest) nodes vals =
     (if CtxType ctx = CtxGlobal then Inr None
      else if CtxType ctx = CtxPool then
        (case (if nodes = []
               then (case ListNodes env of
                       Some listNodes \<Rightarrow> listNodes None
                     | None \<Rightarrow> Inr nodes)
               else Inr nodes) of
           Inl err \<Rightarrow> Inl err
         | Inr nodes' \<Rightarrow>
             node_contexts env rest nodes'
               (append_all vals
                  (map Address (filter (\<lambda>n. NodePool n = CtxValue ctx) nodes'))))
      else node_contexts env rest nodes vals)"

definition nodePermChecker_filter :: "env \<Rightarrow> token \<Rightarrow> error + TargetFilter option" where
  "nodePermChecker_filter env t =
     (let contexts = ContextsForPermission env t PermPoolReadEvents in
      if length contexts = 0 then Inr None
      else case node_contexts env contexts [] None of
          Inl err \<Rightarrow> Inl err
        | Inr vals \<Rightarrow> Inr (Some \<lparr>FilterType = TargetTypeNode, Values = vals\<rparr>))"

definition rolePermChecker_filter :: "env \<Rightarrow> token \<Rightarrow> error + TargetFilter option" where
  "rolePermChecker_filter env t =
     (let contexts = ContextsForPermission env t PermRoleReadEvents in
      if length contexts = 0 then Inr None
      else Inr (Some \<lparr>FilterType = TargetTypeRole,
                       Values = global_resets contexts None\<rparr>))"

section \<open>The permission checkers: check\<close>

text \<open>
  A check operation returns \<^verbatim>\<open>(bool, error)\<close>. The model also returns the calls made
  to the stores, in order, so that "no lookup was made" is a property of the result.
\<close>

datatype call =
  Call_getAppFromContext string
  | Call_GetTeam string
  | Call_getService string
  | Call_getServiceInstanceOrError string string
  | Call_GetPoolByName string
  | Call_GetAppFromUnitID string
  | Call_ListNodes "string list option"
  | Call_GetByID string
  | Call_check TargetType checkKind
  | Call_TryCancel string string

definition appPermChecker_check ::
  "env \<Rightarrow> token \<Rightarrow> request \<Rightarrow> Event \<Rightarrow> checkKind \<Rightarrow> call list \<times> (error + bool)" where
  "appPermChecker_check env t r e kind =
     (let calls = [Call_getAppFromContext (Value (Target e))] in
      case getAppFromContext env (Value (Target e)) r of
        Inl err \<Rightarrow> (calls, Inl err)
      | Inr a \<Rightarrow>
          let perms = (\<lambda>k. case k of readCheckKind \<Rightarrow> PermAppReadEvents
                                   | updateCheckKind \<Rightarrow> PermAppUpdateEvents);
              hasPermission = Check env t (perms kind)
                (Contexts CtxTeam (AppTeams a)
                 @ [Context CtxApp (AppName a), Context CtxPool (AppPool a)])
          in (calls, Inr hasPermission))"

definition teamPermChecker_check ::
  "env \<Rightarrow> token \<Rightarrow> request \<Rightarrow> Event \<Rightarrow> checkKind \<Rightarrow> call list \<times> (error + bool)" where
  "teamPermChecker_check env t r e kind =
     (let calls = [Call_GetTeam (Value (Target e))] in
      case GetTeam env (Value (Target e)) of
        Inl err \<Rightarrow> (calls, Inl err)
      | Inr tm \<Rightarrow>
          let perms = (\<lambda>k. case k of readCheckKind \<Rightarrow> PermTeamReadEvents
                                   | updateCheckKind \<Rightarrow> PermTeamUpdateEvents);
              hasPermission = Check env t (perms kind) [Context CtxTeam (TeamName tm)]
          in (calls, Inr hasPermission))"

definition servicePermChecker_check ::
  "env \<Rightarrow> token \<Rightarrow> request \<Rightarrow> Event \<Rightarrow> checkKind \<Rightarrow> call list \<times> (error + bool)" where
  "servicePermChecker_check env t r e kind =
     (let calls = [Call_getService (Value (Target e))] in
      case getService env (Value (Target e)) of
        Inl err \<Rightarrow> (calls, Inl err)
      | Inr s \<Rightarrow>
          let perms = (\<lambda>k. case k of readCheckKind \<Rightarrow> PermServiceReadEvents
                                   | updateCheckKind \<Rightarrow> PermServiceUpdateEvents);
              hasPermission = Check env t (perms kind)
                (Contexts CtxTeam (OwnerTeams s) @ [Context CtxService (SvcName s)])
          in (calls, Inr hasPermission))"

definition serviceInstancePermChecker_check ::
  "env \<Rightarrow> token \<Rightarrow> request \<Rightarrow> Event \<Rightarrow> checkKind \<Rightarrow> call list \<times> (error + bool)" where
  "serviceInstancePermChecker_check env t r e kind =
     (let hasPermission = False;
          v = SplitN2 (Value (Target e)) in
      if length v = 2 then
        (let calls = [Call_getServiceInstanceOrError (v ! 0) (v ! 1)] in
         case getServiceInstanceOrError env (v ! 0) (v ! 1) of
           Inl err \<Rightarrow> (calls, Inl err)
         | Inr si \<Rightarrow>
             let perms = (\<lambda>k. case k of readCheckKind \<Rightarrow> PermServiceInstanceReadEvents
                                      | updateCheckKind \<Rightarrow> PermServiceInstanceUpdateEvents)
             in (calls, Inr (Check env t (perms kind)
                   (Contexts CtxTeam (InstanceTeams si)
                    @ [Context CtxServiceInstance (Value (Target e))]))))
      else ([], Inr hasPermission))"

definition poolPermChecker_check ::
  "env \<Rightarrow> token \<Rightarrow> request \<Rightarrow> Event \<Rightarrow> checkKind \<Rightarrow> call list \<times> (error + bool)" where
  "poolPermChecker_check env t r e kind =
     (let calls = [Call_GetPoolByName (Value (Target e))] in
      case GetPoolByName env (Value (Target e)) of
        Inl err \<Rightarrow> (calls, Inl err)
      | Inr p \<Rightarrow>
          let perms = (\<lambda>k. case k of readCheckKind \<Rightarrow> PermPoolReadEvents
                                   | updateCheckKind \<Rightarrow> PermPoolUpdateEvents);
              hasPermission = Check env t (perms kind) [Context CtxPool (PoolName p)]
          in (calls, Inr hasPermission))"

definition userPermChecker_check ::
  "env \<Rightarrow> token \<Rightarrow> request \<Rightarrow> Event \<Rightarrow> checkKind \<Rightarrow> call list \<times> (error + bool)" where
  "userPermChecker_check env t r e kind =
     (let perms = (\<lambda>k. case k of readCheckKind \<Rightarrow> PermUserReadEvents
                              | updateCheckKind \<Rightarrow> PermUserUpdateEvents)
      in ([], Inr (Check env t (perms kind) [Context CtxGlobal ''''])))"

definition iaasPermChecker_check ::
  "env \<Rightarrow> token \<Rightarrow> request \<Rightarrow> Event \<Rightarrow> checkKind \<Rightarrow> call list \<times> (error + bool)" where
  "iaasPermChecker_check env t r e kind =
     (let perms = (\<lambda>k. case k of readCheckKind \<Rightarrow> PermMachineReadEvents
                              | updateCheckKind \<Rightarrow> PermMachineUpdateEvents)
      in ([], Inr (Check env t (perms kind) [Context CtxIaaS (Value (Target e))])))"

definition containerPermChecker_check ::
  "env \<Rightarrow> token \<Rightarrow> request \<Rightarrow> Event \<Rightarrow> checkKind \<Rightarrow> call list \<times> (error + bool)" where
  "containerPermChecker_check env t r e kind =
     (let calls = [Call_GetAppFromUnitID (Value (Target e))] in
      case GetAppFromUnitID env (Value (Target e)) of
        Inl err \<Rightarrow> (calls, Inl err)
      | Inr a \<Rightarrow>
          let perms = (\<lambda>k. case k of readCheckKind \<Rightarrow> PermAppReadEvents
                                   | updateCheckKind \<Rightarrow> PermAppUpdateEvents)
          in (calls, Inr (Check env t (perms kind)
                (Contexts CtxTeam (AppTeams a)
                 @ [Context CtxApp (AppName a), Context CtxPool (AppPool a)]))))"

definition nodePermChecker_check ::
  "env \<Rightarrow> token \<Rightarrow> request \<Rightarrow> Event \<Rightarrow> checkKind \<Rightarrow> call list \<times> (error + bool)" where
  "nodePermChecker_check env t r e kind =
     (let hasPermission = False in
      case ListNodes env of
        None \<Rightarrow> ([], Inr hasPermission)
      | Some listNodes \<Rightarrow>
          (let calls = [Call_ListNodes (Some [Value (Target e)])] in
           case listNodes (Some [Value (Target e)]) of
             Inl err \<Rightarrow> (calls, Inl err)
           | Inr nodes \<Rightarrow>
               let ctx = (if length nodes > 0 then [Context CtxPool (NodePool (nodes ! 0))]
                          else []);
                   perms = (\<lambda>k. case k of readCheckKind \<Rightarrow> PermPoolReadEvents
                                        | updateCheckKind \<Rightarrow> PermPoolUpdateEvents)
               in (calls, Inr (Check env t (perms kind) ctx))))"

definition rolePermChecker_check ::
  "env \<Rightarrow> token \<Rightarrow> request \<Rightarrow> Event \<Rightarrow> checkKind \<Rightarrow> call list \<times> (error + bool)" where
  "rolePermChecker_check env t r e kind =
     (let perms = (\<lambda>k. case k of readCheckKind \<Rightarrow> PermRoleReadEvents
                              | updateCheckKind \<Rightarrow> PermRoleUpdateEvents)
      in ([], Inr (Check env t (perms kind) [Context CtxGlobal ''''])))"

section \<open>The registry and the handlers\<close>

text \<open>The ten implementations of the interface \<^verbatim>\<open>evtPermChecker\<close>.\<close>

datatype evtPermChecker =
  appPermChecker | teamPermChecker | servicePermChecker | serviceInstancePermChecker
  | poolPermChecker | userPermChecker | containerPermChecker | nodePermChecker
  | iaasPermChecker | rolePermChecker

fun checker_filter :: "evtPermChecker \<Rightarrow> env \<Rightarrow> token \<Rightarrow> error + TargetFilter option" where
  "checker_filter appPermChecker = appPermChecker_filter"
| "checker_filter teamPermChecker = teamPermChecker_filter"
| "checker_filter servicePermChecker = servicePermChecker_filter"
| "checker_filter serviceInstancePermChecker = serviceInstancePermChecker_filter"
| "checker_filter poolPermChecker = poolPermChecker_filter"
| "checker_filter userPermChecker = userPermChecker_filter"
| "checker_filter containerPermChecker = containerPermChecker_filter"
| "checker_filter nodePermChecker = nodePermChecker_filter"
| "checker_filter iaasPermChecker = iaasPermChecker_filter"
| "checker_filter rolePermChecker = rolePermChecker_filter"

fun checker_check ::
  "evtPermChecker \<Rightarrow> env \<Rightarrow> token \<Rightarrow> request \<Rightarrow> Event \<Rightarrow> checkKind
    \<Rightarrow> call list \<times> (error + bool)" where
  "checker_check appPermChecker = appPermChecker_check"
| "checker_check teamPermChecker = teamPermChecker_check"
| "checker_check servicePermChecker = servicePermChecker_check"
| "checker_check serviceInstancePermChecker = serviceInstancePermChecker_check"
| "checker_check poolPermChecker = poolPermChecker_check"
| "checker_check userPermChecker = userPermChecker_check"
| "checker_check containerPermChecker = containerPermChecker_check"
| "checker_check nodePermChecker = nodePermChecker_check"
| "checker_check iaasPermChecker = iaasPermChecker_check"
| "checker_check rolePermChecker = rolePermChecker_check"

text \<open>The entries of the map \<^verbatim>\<open>evtPermMap\<close>, as the source lists them.\<close>

definition evtPermMap_entries :: "(TargetType \<times> evtPermChecker) list" where
  "evtPermMap_entries =
     [(TargetTypeApp, appPermChecker),
      (TargetTypeTeam, teamPermChecker),
      (TargetTypeService, servicePermChecker),
      (TargetTypeServiceInstance, serviceInstancePermChecker),
      (TargetTypePool, poolPermChecker),
      (TargetTypeUser, userPermChecker),
      (TargetTypeContainer, containerPermChecker),
      (TargetTypeNode, nodePermChecker),
      (TargetTypeIaas, iaasPermChecker),
      (TargetTypeRole, rolePermChecker)]"

definition evtPermMap :: "TargetType \<Rightarrow> evtPermChecker option" where
  "evtPermMap = map_of evtPermMap_entries"

text \<open>
  Go visits the entries of a map in an order it does not specify, each entry once:
  a \<^verbatim>\<open>range\<close> over the map is a loop over some arrangement of the entries.
\<close>

definition range_order :: "(TargetType \<times> evtPermChecker) list \<Rightarrow> bool" where
  "range_order order \<longleftrightarrow> distinct order \<and> set order = set evtPermMap_entries"

text \<open>The loop of \<^verbatim>\<open>filterForPerms\<close> over the entries still to visit.\<close>

fun range_checkers ::
  "env \<Rightarrow> token \<Rightarrow> (TargetType \<times> evtPermChecker) list \<Rightarrow> 'q Filter \<Rightarrow> error + 'q Filter" where
  "range_checkers env t [] filter' = Inr filter'"
| "range_checkers env t (entry # rest) filter' =
     (case checker_filter (snd entry) env t of
        Inl err \<Rightarrow> Inl err
      | Inr allowed \<Rightarrow>
          (case allowed of
             None \<Rightarrow> range_checkers env t rest filter'
           | Some a \<Rightarrow>
               range_checkers env t rest
                 (filter'\<lparr>AllowedTargets := append_go (AllowedTargets filter') a\<rparr>)))"

text \<open>
  \<^verbatim>\<open>filterForPerms(t, filter)\<close>: \<open>order\<close> is the order of the \<^verbatim>\<open>range\<close>, \<open>zero\<close> the zero
  value of the request fields of \<^verbatim>\<open>event.Filter{}\<close>, \<open>None\<close> the nil filter. The result is
  the pair the function returns; the source also updates the caller's struct in place,
  which the caller (\<^verbatim>\<open>eventList\<close>) overwrites with the returned pointer.
\<close>

definition filterForPerms ::
  "env \<Rightarrow> (TargetType \<times> evtPermChecker) list \<Rightarrow> 'q \<Rightarrow> token \<Rightarrow> 'q Filter option
    \<Rightarrow> error + 'q Filter" where
  "filterForPerms env order zero t filter' =
     (let filter' = (case filter' of
                      None \<Rightarrow> \<lparr>Fields = zero, AllowedTargets = None\<rparr>
                    | Some f \<Rightarrow> f);
          filter' = filter'\<lparr>AllowedTargets := Some []\<rparr>
      in range_checkers env t order filter')"

text \<open>
  The handlers return the calls they made and either the error or what was written.
\<close>

definition eventInfo :: "env \<Rightarrow> request \<Rightarrow> token \<Rightarrow> call list \<times> (error + written)" where
  "eventInfo env r t =
     (let uuid = query_uuid r in
      if \<not> IsObjectIdHex env uuid
      then ([], Inl (HTTP StatusBadRequest (''uuid parameter is not ObjectId: '' @ uuid)))
      else case GetByID env uuid of
          Inl err \<Rightarrow> ([Call_GetByID uuid], Inl (HTTP StatusNotFound (Error env err)))
        | Inr e \<Rightarrow>
            (case evtPermMap (Type (Target e)) of
               None \<Rightarrow> ([Call_GetByID uuid], Inl ErrUnauthorized)
             | Some checker \<Rightarrow>
                 (case checker_check checker env t r e readCheckKind of
                    (calls, res) \<Rightarrow>
                      (Call_GetByID uuid # Call_check (Type (Target e)) readCheckKind # calls,
                       case res of
                         Inl err \<Rightarrow> Inl err
                       | Inr hasPermission \<Rightarrow>
                           if \<not> hasPermission then Inl ErrUnauthorized
                           else Inr (Encode e)))))"

definition eventCancel :: "env \<Rightarrow> request \<Rightarrow> token \<Rightarrow> call list \<times> (error + written)" where
  "eventCancel env r t =
     (let uuid = query_uuid r in
      if \<not> IsObjectIdHex env uuid
      then ([], Inl (HTTP StatusBadRequest (''uuid parameter is not ObjectId: '' @ uuid)))
      else case GetByID env uuid of
          Inl err \<Rightarrow> ([Call_GetByID uuid], Inl (HTTP StatusNotFound (Error env err)))
        | Inr e \<Rightarrow>
            (let reason = form_reason r in
             if reason = ''''
             then ([Call_GetByID uuid], Inl (HTTP StatusBadRequest ''reason is mandatory''))
             else case evtPermMap (Type (Target e)) of
                 None \<Rightarrow> ([Call_GetByID uuid], Inl ErrUnauthorized)
               | Some checker \<Rightarrow>
                   (case checker_check checker env t r e updateCheckKind of
                      (calls, res) \<Rightarrow>
                        (let calls = Call_GetByID uuid
                               # Call_check (Type (Target e)) updateCheckKind # calls in
                         case res of
                           Inl err \<Rightarrow> (calls, Inl err)
                         | Inr hasPermission \<Rightarrow>
                             if \<not> hasPermission then (calls, Inl ErrUnauthorized)
                             else
                               (let calls = calls @ [Call_TryCancel reason (userName t)] in
                                case TryCancel env e reason (userName t) of
                                  Some err \<Rightarrow>
                                    if err = ErrNotCancelable
                                    then (calls, Inl (HTTP StatusBadRequest (Error env err)))
                                    else (calls, Inl err)
                                | None \<Rightarrow> (calls, Inr (WriteHeader StatusNoContent)))))))"

section \<open>A permission evaluation and sample collaborators\<close>

text \<open>
  Modelled from the spec: permission evaluation (package \<^verbatim>\<open>permission\<close>). The actor holds
  permissions, each a scheme scoped to a context. \<open>token_ContextsForPermission\<close> is the
  ordered sequence of the contexts the actor holds for a scheme; \<open>token_Check\<close> says
  whether the actor holds the scheme within the given contexts, a Global context
  subsuming every other.
\<close>

definition token_ContextsForPermission ::
  "token \<Rightarrow> PermissionScheme \<Rightarrow> PermissionContext list" where
  "token_ContextsForPermission t scheme =
     map snd (filter (\<lambda>perm. fst perm = scheme) (permissions t))"

definition token_Check :: "token \<Rightarrow> PermissionScheme \<Rightarrow> PermissionContext list \<Rightarrow> bool" where
  "token_Check t scheme contexts =
     list_ex (\<lambda>perm. fst perm = scheme
                \<and> (CtxType (snd perm) = CtxGlobal \<or> snd perm \<in> set contexts))
       (permissions t)"

text \<open>
  The identifiers of the driver: 24 hexadecimal digits
  (\<^verbatim>\<open>bson.IsObjectIdHex\<close> of the library the file imports).
\<close>

definition hex_ObjectId :: "string \<Rightarrow> bool" where
  "hex_ObjectId s \<longleftrightarrow> length s = 24 \<and> list_all (\<lambda>c. c \<in> set ''0123456789abcdefABCDEF'') s"

text \<open>
  Collaborators with empty stores: no application, service or instance, every lookup
  fails, and the provisioner lists no nodes. The samples below put entities in.
\<close>

definition empty_env :: env where
  "empty_env =
     \<lparr>ContextsForPermission = token_ContextsForPermission,
      Check = token_Check,
      appList = (\<lambda>contexts. Inr []),
      Units = (\<lambda>a. Inr []),
      provisionReadableServices = (\<lambda>t contexts. Inr []),
      readableInstances = (\<lambda>t contexts serviceName appName. Inr []),
      ListNodes = None,
      getAppFromContext = (\<lambda>name r. Inl (Err ''app not found'')),
      GetTeam = (\<lambda>name. Inl (Err ''team not found'')),
      getService = (\<lambda>name. Inl (Err ''service not found'')),
      getServiceInstanceOrError = (\<lambda>serviceName name. Inl (Err ''instance not found'')),
      GetPoolByName = (\<lambda>name. Inl (Err ''pool not found'')),
      GetAppFromUnitID = (\<lambda>unitID. Inl (Err ''unit not found'')),
      IsObjectIdHex = hex_ObjectId,
      GetByID = (\<lambda>objID. Inl (Err ''event not found'')),
      TryCancel = (\<lambda>e reason owner. None),
      Error = (\<lambda>err. case err of HTTP code message \<Rightarrow> message | Err message \<Rightarrow> message
                     | ErrUnauthorized \<Rightarrow> ''unauthorized''
                     | ErrNotCancelable \<Rightarrow> ''not cancelable'')\<rparr>"

text \<open>
  The scheme whose contexts each checker's filter operation enumerates (the first
  statement of each \<^verbatim>\<open>filter\<close> method).
\<close>

definition read_events_scheme :: "evtPermChecker \<Rightarrow> PermissionScheme" where
  "read_events_scheme c =
     (case c of
        appPermChecker \<Rightarrow> PermAppReadEvents
      | teamPermChecker \<Rightarrow> PermTeamReadEvents
      | servicePermChecker \<Rightarrow> PermServiceReadEvents
      | serviceInstancePermChecker \<Rightarrow> PermServiceInstanceReadEvents
      | poolPermChecker \<Rightarrow> PermPoolReadEvents
      | userPermChecker \<Rightarrow> PermUserReadEvents
      | containerPermChecker \<Rightarrow> PermAppReadEvents
      | nodePermChecker \<Rightarrow> PermPoolReadEvents
      | iaasPermChecker \<Rightarrow> PermMachineReadEvents
      | rolePermChecker \<Rightarrow> PermRoleReadEvents)"

text \<open>An actor holding no permission at all.\<close>

definition alice :: token where
  "alice = \<lparr>userName = ''alice'', permissions = []\<rparr>"

text \<open>The actor holds a Global context for the scheme.\<close>

definition holds_Global :: "env \<Rightarrow> token \<Rightarrow> PermissionScheme \<Rightarrow> bool" where
  "holds_Global env t scheme \<longleftrightarrow>
     list_ex (\<lambda>ctx. CtxType ctx = CtxGlobal) (ContextsForPermission env t scheme)"

text \<open>An actor with permissions scoped to teams, a pool, an IaaS and a user.\<close>

definition bob :: token where
  "bob = \<lparr>userName = ''bob'',
          permissions =
            [(PermTeamReadEvents, Context CtxTeam ''alpha''),
             (PermPoolReadEvents, Context CtxPool ''pool1''),
             (PermMachineReadEvents, Context CtxIaaS ''ec2''),
             (PermUserReadEvents, Context CtxUser ''carol''),
             (PermTeamReadEvents, Context CtxTeam ''beta'')]\<rparr>"

text \<open>An actor with Global contexts, and a narrower one beside them.\<close>

definition admin :: token where
  "admin = \<lparr>userName = ''admin'',
            permissions =
              [(PermAppReadEvents, Context CtxGlobal ''''),
               (PermTeamReadEvents, Context CtxTeam ''alpha''),
               (PermTeamReadEvents, Context CtxGlobal ''''),
               (PermPoolReadEvents, Context CtxGlobal ''''),
               (PermUserReadEvents, Context CtxGlobal '''')]\<rparr>"

text \<open>Collaborators with one application and one team.\<close>

definition blog_env :: env where
  "blog_env = empty_env
     \<lparr>appList := (\<lambda>contexts. Inr [\<lparr>AppName = ''blog'', AppTeams = [''alpha''],
                                    AppPool = ''pool1''\<rparr>]),
      GetTeam := (\<lambda>name. if name = ''alpha'' then Inr \<lparr>TeamName = ''alpha''\<rparr>
                          else Inl (Err ''team not found''))\<rparr>"

text \<open>
  The scope an entry of the registry contributes to the combined filter: none when the
  filter operation of its checker returns an error or the nil filter.
\<close>

definition scope_of ::
  "env \<Rightarrow> token \<Rightarrow> TargetType \<times> evtPermChecker \<Rightarrow> TargetFilter option" where
  "scope_of env t entry =
     (case checker_filter (snd entry) env t of Inl err \<Rightarrow> None | Inr allowed \<Rightarrow> allowed)"

text \<open>Collaborators whose provisioner fails to list the units of an application.\<close>

definition units_down_env :: env where
  "units_down_env = blog_env\<lparr>Units := (\<lambda>a. Inl (Err ''provisioner unreachable''))\<rparr>"

text \<open>A service-instance event whose target value has no separator.\<close>

definition malformed_instance_event :: Event where
  "malformed_instance_event =
     \<lparr>UniqueID = ''5f1a00000000000000000009'',
      Target = \<lparr>Type = TargetTypeServiceInstance, Value = ''mysql''\<rparr>\<rparr>"

text \<open>A request naming an event and giving a reason.\<close>

definition sample_request :: request where
  "sample_request = \<lparr>query_uuid = ''5f1a00000000000000000009'', form_reason = ''stuck''\<rparr>"

text \<open>An actor who may read and update the events of the team alpha.\<close>

definition carol :: token where
  "carol = \<lparr>userName = ''carol'',
            permissions =
              [(PermTeamReadEvents, Context CtxTeam ''alpha''),
               (PermTeamUpdateEvents, Context CtxTeam ''alpha'')]\<rparr>"

text \<open>
  An event store with two events of the team alpha; the second has finished and cannot
  be canceled any more.
\<close>

definition events_env :: env where
  "events_env = blog_env
     \<lparr>GetByID := (\<lambda>objID.
         if objID = ''5f1a00000000000000000001'' \<or> objID = ''5f1a00000000000000000002''
         then Inr \<lparr>UniqueID = objID, Target = \<lparr>Type = TargetTypeTeam, Value = ''alpha''\<rparr>\<rparr>
         else Inl (Err ''event not found'')),
      TryCancel := (\<lambda>e reason owner.
         if UniqueID e = ''5f1a00000000000000000002'' then Some ErrNotCancelable else None)\<rparr>"

text \<open>The calls of a handler include a permission check, or a request to cancel.\<close>

definition check_performed :: "call list \<Rightarrow> bool" where
  "check_performed calls =
     list_ex (\<lambda>c. case c of Call_check ty kind \<Rightarrow> True | _ \<Rightarrow> False) calls"

definition cancel_requested :: "call list \<Rightarrow> bool" where
  "cancel_requested calls =
     list_ex (\<lambda>c. case c of Call_TryCancel reason owner \<Rightarrow> True | _ \<Rightarrow> False) calls"

section \<open>Properties of the filter operations\<close>

subsection \<open>The loops\<close>

lemma append_all_Some: "append_all (Some ys) xs = Some (ys @ xs)"
  unfolding append_all_def by (induction xs arbitrary: ys) simp_all

lemma append_all_None: "append_all None xs = (if xs = [] then None else Some xs)"
proof (cases xs)
  case Nil
  then show ?thesis by (simp add: append_all_def)
next
  case (Cons x rest)
  have "append_all None (x # rest) = append_all (Some [x]) rest"
    by (simp add: append_all_def)
  with Cons show ?thesis by (simp add: append_all_Some)
qed

lemma append_all_step: "append_all (append_go vals x) xs = append_all vals (x # xs)"
  by (simp add: append_all_def)

lemma collect_contexts_no_global:
  "\<forall>ctx\<in>set ctxs. CtxType ctx \<noteq> CtxGlobal \<Longrightarrow>
   collect_contexts own ctxs vals =
     append_all vals (map CtxValue (filter (\<lambda>ctx. CtxType ctx = own) ctxs))"
proof (induction ctxs arbitrary: vals)
  case Nil
  show ?case by (simp add: append_all_def)
next
  case (Cons ctx rest)
  then show ?case by (simp add: append_all_step)
qed

lemma collect_contexts_global:
  "\<exists>ctx\<in>set ctxs. CtxType ctx = CtxGlobal \<Longrightarrow> collect_contexts own ctxs vals = None"
  by (induction ctxs arbitrary: vals) auto

lemma global_resets_no_global:
  "\<forall>ctx\<in>set ctxs. CtxType ctx \<noteq> CtxGlobal \<Longrightarrow> global_resets ctxs vals = vals"
  by (induction ctxs) auto

lemma global_resets_global:
  "\<exists>ctx\<in>set ctxs. CtxType ctx = CtxGlobal \<Longrightarrow> global_resets ctxs vals = None"
  by (induction ctxs) auto

subsection \<open>No applicable context\<close>

text \<open>
  C8. An actor holding zero contexts for the read-events scheme of a kind gets the nil
  filter (an absent scope) from that kind's filter operation, except for the User kind,
  whose filter operation then returns a filter restricted to exactly the actor's own
  user name.
\<close>

theorem zero_contexts_scope:
  assumes "ContextsForPermission env t (read_events_scheme c) = []"
  shows "checker_filter c env t =
           (if c = userPermChecker
            then Inr (Some \<lparr>FilterType = TargetTypeUser, Values = Some [userName t]\<rparr>)
            else Inr None)"
  using assms
  by (cases c)
    (simp_all add: read_events_scheme_def appPermChecker_filter_def teamPermChecker_filter_def
      servicePermChecker_filter_def serviceInstancePermChecker_filter_def
      poolPermChecker_filter_def userPermChecker_filter_def iaasPermChecker_filter_def
      containerPermChecker_filter_def nodePermChecker_filter_def rolePermChecker_filter_def)

theorem zero_contexts_scope_witness:
  "ContextsForPermission empty_env alice (read_events_scheme teamPermChecker) = []
   \<and> checker_filter teamPermChecker empty_env alice = Inr None
   \<and> ContextsForPermission empty_env alice (read_events_scheme userPermChecker) = []
   \<and> checker_filter userPermChecker empty_env alice =
       Inr (Some \<lparr>FilterType = TargetTypeUser, Values = Some [''alice'']\<rparr>)"
proof -
  have h: "ContextsForPermission empty_env alice (read_events_scheme c) = []" for c
    by (simp add: empty_env_def token_ContextsForPermission_def alice_def)
  show ?thesis
    using h zero_contexts_scope [OF h, of teamPermChecker]
      zero_contexts_scope [OF h, of userPermChecker]
    by (simp add: alice_def)
qed

subsection \<open>Scopes from the contexts\<close>

lemma holds_Global_iff:
  "holds_Global env t scheme \<longleftrightarrow>
     (\<exists>ctx\<in>set (ContextsForPermission env t scheme). CtxType ctx = CtxGlobal)"
  by (simp add: holds_Global_def list_ex_iff)

lemma node_contexts_global:
  "\<exists>ctx\<in>set ctxs. CtxType ctx = CtxGlobal \<Longrightarrow>
   node_contexts env ctxs nodes vals = Inr None
   \<or> (\<exists>listNodes err. ListNodes env = Some listNodes \<and> listNodes None = Inl err
        \<and> node_contexts env ctxs nodes vals = Inl err)"
proof (induction ctxs arbitrary: nodes vals)
  case Nil
  then show ?case by simp
next
  case (Cons ctx rest)
  show ?case
  proof (cases "CtxType ctx = CtxGlobal")
    case True
    then show ?thesis by simp
  next
    case False
    with Cons.prems have rest: "\<exists>c\<in>set rest. CtxType c = CtxGlobal" by auto
    show ?thesis
      using False Cons.IH [OF rest]
      by (auto split: option.splits sum.splits)
  qed
qed

lemma node_contexts_no_provisioner:
  "ListNodes env = None \<Longrightarrow>
   node_contexts env ctxs [] vals =
     Inr (if \<exists>ctx\<in>set ctxs. CtxType ctx = CtxGlobal then None else vals)"
  by (induction ctxs arbitrary: vals) (auto simp: append_all_def)

lemma nodePermChecker_filter_no_provisioner:
  assumes "ListNodes env = None"
    and "ContextsForPermission env t PermPoolReadEvents \<noteq> []"
  shows "nodePermChecker_filter env t =
     Inr (Some \<lparr>FilterType = TargetTypeNode, Values = None\<rparr>)"
  using assms
  by (simp add: nodePermChecker_filter_def node_contexts_no_provisioner)

lemma nodePermChecker_check_no_provisioner:
  "ListNodes env = None \<Longrightarrow> nodePermChecker_check env t r e kind = ([], Inr False)"
  by (simp add: nodePermChecker_check_def)

text \<open>
  C3, as amended. For an actor holding a non-empty list of applicable contexts, none of
  them Global: the Team, Pool and IaaS filter operations return a filter restricted to
  exactly the values of the contexts of the kind's own type, in their order, when there
  is at least one such context; the User filter operation returns a filter restricted
  to exactly the actor's own user name, whatever the contexts are.
\<close>

theorem direct_context_scope:
  assumes "contexts \<noteq> []" and "\<forall>ctx\<in>set contexts. CtxType ctx \<noteq> CtxGlobal"
  shows "(ContextsForPermission env t PermTeamReadEvents = contexts
            \<and> (\<exists>ctx\<in>set contexts. CtxType ctx = CtxTeam)
          \<longrightarrow> teamPermChecker_filter env t =
                Inr (Some \<lparr>FilterType = TargetTypeTeam,
                  Values = Some (map CtxValue (filter (\<lambda>ctx. CtxType ctx = CtxTeam) contexts))\<rparr>))
       \<and> (ContextsForPermission env t PermPoolReadEvents = contexts
            \<and> (\<exists>ctx\<in>set contexts. CtxType ctx = CtxPool)
          \<longrightarrow> poolPermChecker_filter env t =
                Inr (Some \<lparr>FilterType = TargetTypePool,
                  Values = Some (map CtxValue (filter (\<lambda>ctx. CtxType ctx = CtxPool) contexts))\<rparr>))
       \<and> (ContextsForPermission env t PermMachineReadEvents = contexts
            \<and> (\<exists>ctx\<in>set contexts. CtxType ctx = CtxIaaS)
          \<longrightarrow> iaasPermChecker_filter env t =
                Inr (Some \<lparr>FilterType = TargetTypeIaas,
                  Values = Some (map CtxValue (filter (\<lambda>ctx. CtxType ctx = CtxIaaS) contexts))\<rparr>))
       \<and> (ContextsForPermission env t PermUserReadEvents = contexts
          \<longrightarrow> userPermChecker_filter env t =
                Inr (Some \<lparr>FilterType = TargetTypeUser, Values = Some [userName t]\<rparr>))"
proof -
  have own: "collect_contexts own contexts None =
      Some (map CtxValue (filter (\<lambda>ctx. CtxType ctx = own) contexts))"
    if "\<exists>ctx\<in>set contexts. CtxType ctx = own" for own
  proof -
    from that have "filter (\<lambda>ctx. CtxType ctx = own) contexts \<noteq> []"
      by (simp add: filter_empty_conv)
    then show ?thesis
      by (simp add: collect_contexts_no_global [OF assms(2)] append_all_None)
  qed
  have user: "global_resets contexts vals = vals" for vals
    by (rule global_resets_no_global [OF assms(2)])
  show ?thesis
    using assms(1)
    by (simp add: teamPermChecker_filter_def poolPermChecker_filter_def
        iaasPermChecker_filter_def userPermChecker_filter_def own user)
qed

theorem direct_context_scope_witness:
  "teamPermChecker_filter empty_env bob =
       Inr (Some \<lparr>FilterType = TargetTypeTeam, Values = Some [''alpha'', ''beta'']\<rparr>)
   \<and> poolPermChecker_filter empty_env bob =
       Inr (Some \<lparr>FilterType = TargetTypePool, Values = Some [''pool1'']\<rparr>)
   \<and> iaasPermChecker_filter empty_env bob =
       Inr (Some \<lparr>FilterType = TargetTypeIaas, Values = Some [''ec2'']\<rparr>)
   \<and> userPermChecker_filter empty_env bob =
       Inr (Some \<lparr>FilterType = TargetTypeUser, Values = Some [''bob'']\<rparr>)"
proof -
  have c: "ContextsForPermission empty_env bob PermTeamReadEvents =
        [Context CtxTeam ''alpha'', Context CtxTeam ''beta'']"
      "ContextsForPermission empty_env bob PermPoolReadEvents = [Context CtxPool ''pool1'']"
      "ContextsForPermission empty_env bob PermMachineReadEvents = [Context CtxIaaS ''ec2'']"
      "ContextsForPermission empty_env bob PermUserReadEvents = [Context CtxUser ''carol'']"
    by (simp_all add: empty_env_def token_ContextsForPermission_def bob_def)
  have team: "teamPermChecker_filter empty_env bob =
       Inr (Some \<lparr>FilterType = TargetTypeTeam, Values = Some [''alpha'', ''beta'']\<rparr>)"
    using direct_context_scope
      [of "[Context CtxTeam ''alpha'', Context CtxTeam ''beta'']" empty_env bob] c
    by simp
  have pool: "poolPermChecker_filter empty_env bob =
       Inr (Some \<lparr>FilterType = TargetTypePool, Values = Some [''pool1'']\<rparr>)"
    using direct_context_scope [of "[Context CtxPool ''pool1'']" empty_env bob] c
    by simp
  have iaas: "iaasPermChecker_filter empty_env bob =
       Inr (Some \<lparr>FilterType = TargetTypeIaas, Values = Some [''ec2'']\<rparr>)"
    using direct_context_scope [of "[Context CtxIaaS ''ec2'']" empty_env bob] c
    by simp
  have user: "userPermChecker_filter empty_env bob =
       Inr (Some \<lparr>FilterType = TargetTypeUser, Values = Some [''bob'']\<rparr>)"
    using direct_context_scope [of "[Context CtxUser ''carol'']" empty_env bob] c
    by (simp add: bob_def)
  from team pool iaas user show ?thesis by simp
qed

theorem direct_context_scope_counterexample:
  "ContextsForPermission empty_env bob PermUserReadEvents = [Context CtxUser ''carol'']
   \<and> userPermChecker_filter empty_env bob =
       Inr (Some \<lparr>FilterType = TargetTypeUser, Values = Some [''bob'']\<rparr>)
   \<and> userPermChecker_filter empty_env bob \<noteq>
       Inr (Some \<lparr>FilterType = TargetTypeUser, Values = Some [''carol'']\<rparr>)"
  by (simp add: empty_env_def token_ContextsForPermission_def bob_def
      userPermChecker_filter_def)

text \<open>
  C7, as amended. For an actor holding a Global context for the read-events scheme, the
  Team, Pool, User, IaaS and Role filter operations return a filter with nil values (the
  unrestricted scope), whatever other contexts the actor holds; the Node filter
  operation does so too unless the node listing fails, in which case it returns that
  error.
\<close>

theorem global_context_scope:
  "(holds_Global env t PermTeamReadEvents \<longrightarrow>
      teamPermChecker_filter env t =
        Inr (Some \<lparr>FilterType = TargetTypeTeam, Values = None\<rparr>))
   \<and> (holds_Global env t PermPoolReadEvents \<longrightarrow>
      poolPermChecker_filter env t =
        Inr (Some \<lparr>FilterType = TargetTypePool, Values = None\<rparr>))
   \<and> (holds_Global env t PermUserReadEvents \<longrightarrow>
      userPermChecker_filter env t =
        Inr (Some \<lparr>FilterType = TargetTypeUser, Values = None\<rparr>))
   \<and> (holds_Global env t PermMachineReadEvents \<longrightarrow>
      iaasPermChecker_filter env t =
        Inr (Some \<lparr>FilterType = TargetTypeIaas, Values = None\<rparr>))
   \<and> (holds_Global env t PermRoleReadEvents \<longrightarrow>
      rolePermChecker_filter env t =
        Inr (Some \<lparr>FilterType = TargetTypeRole, Values = None\<rparr>))
   \<and> (holds_Global env t PermPoolReadEvents \<longrightarrow>
      nodePermChecker_filter env t =
        Inr (Some \<lparr>FilterType = TargetTypeNode, Values = None\<rparr>)
      \<or> (\<exists>listNodes err. ListNodes env = Some listNodes \<and> listNodes None = Inl err
           \<and> nodePermChecker_filter env t = Inl err))"
proof -
  have ne: "ContextsForPermission env t scheme \<noteq> []" if "holds_Global env t scheme" for scheme
    using that by (auto simp: holds_Global_iff)
  have node: "nodePermChecker_filter env t =
        Inr (Some \<lparr>FilterType = TargetTypeNode, Values = None\<rparr>)
      \<or> (\<exists>listNodes err. ListNodes env = Some listNodes \<and> listNodes None = Inl err
           \<and> nodePermChecker_filter env t = Inl err)"
    if g: "holds_Global env t PermPoolReadEvents"
    using node_contexts_global [OF g [unfolded holds_Global_iff], of env "[]" None] ne [OF g]
    by (auto simp: nodePermChecker_filter_def)
  show ?thesis
    using node
    by (auto simp: teamPermChecker_filter_def poolPermChecker_filter_def
        iaasPermChecker_filter_def userPermChecker_filter_def rolePermChecker_filter_def
        ne collect_contexts_global global_resets_global holds_Global_iff [symmetric])
qed

theorem global_context_scope_witness:
  "holds_Global empty_env admin PermTeamReadEvents
   \<and> teamPermChecker_filter empty_env admin =
        Inr (Some \<lparr>FilterType = TargetTypeTeam, Values = None\<rparr>)
   \<and> holds_Global empty_env admin PermPoolReadEvents
   \<and> nodePermChecker_filter empty_env admin =
        Inr (Some \<lparr>FilterType = TargetTypeNode, Values = None\<rparr>)"
proof -
  have g: "holds_Global empty_env admin PermTeamReadEvents"
    "holds_Global empty_env admin PermPoolReadEvents"
    by (simp_all add: holds_Global_def empty_env_def token_ContextsForPermission_def admin_def)
  have n: "ListNodes empty_env = None" by (simp add: empty_env_def)
  show ?thesis
    using g n global_context_scope [of empty_env admin] by simp
qed

theorem global_context_scope_counterexample:
  "ContextsForPermission blog_env admin PermAppReadEvents = [Context CtxGlobal '''']
   \<and> appPermChecker_filter blog_env admin =
        Inr (Some \<lparr>FilterType = TargetTypeApp, Values = Some [''blog'']\<rparr>)"
  by (simp add: blog_env_def empty_env_def token_ContextsForPermission_def admin_def
      appPermChecker_filter_def append_all_def)

text \<open>
  C2. The Node filter operation at an actor holding one Pool context for the
  pool-read-events scheme, with a provisioner that cannot list nodes: the result is not
  the nil filter but a filter with nil values, the same one an actor holding a Global
  context gets, while the check operation of the same checker denies every node event.
\<close>

theorem node_filter_without_node_listing:
  "ListNodes empty_env = None
   \<and> ContextsForPermission empty_env bob PermPoolReadEvents = [Context CtxPool ''pool1'']
   \<and> nodePermChecker_filter empty_env bob =
        Inr (Some \<lparr>FilterType = TargetTypeNode, Values = None\<rparr>)
   \<and> nodePermChecker_filter empty_env bob = nodePermChecker_filter empty_env admin
   \<and> nodePermChecker_check empty_env bob sample_request
        \<lparr>UniqueID = ''5f1a00000000000000000004'',
         Target = \<lparr>Type = TargetTypeNode, Value = ''10.0.0.7:2375''\<rparr>\<rparr> readCheckKind =
        ([], Inr False)"
  by (simp add: empty_env_def token_ContextsForPermission_def bob_def admin_def
      nodePermChecker_filter_def nodePermChecker_check_def append_all_def)

section \<open>Properties of the combined filter\<close>

lemma range_checkers_error:
  "\<exists>entry\<in>set order. \<exists>err. checker_filter (snd entry) env t = Inl err \<Longrightarrow>
   \<exists>entry\<in>set order. \<exists>err. checker_filter (snd entry) env t = Inl err
      \<and> range_checkers env t order flt = Inl err"
proof (induction order arbitrary: flt)
  case Nil
  then show ?case by simp
next
  case (Cons entry rest)
  show ?case
  proof (cases "checker_filter (snd entry) env t")
    case (Inl err)
    then show ?thesis by auto
  next
    case (Inr allowed)
    with Cons.prems
    have "\<exists>entry\<in>set rest. \<exists>err. checker_filter (snd entry) env t = Inl err" by auto
    from Cons.IH [OF this] Inr show ?thesis
      by (cases allowed) auto
  qed
qed

lemma range_checkers_ok:
  "\<forall>entry\<in>set order. \<forall>err. checker_filter (snd entry) env t \<noteq> Inl err \<Longrightarrow>
   range_checkers env t order flt =
     Inr (flt\<lparr>AllowedTargets :=
            append_all (AllowedTargets flt) (List.map_filter (scope_of env t) order)\<rparr>)"
proof (induction order arbitrary: flt)
  case Nil
  then show ?case by (simp add: append_all_def)
next
  case (Cons entry rest)
  then obtain allowed where a: "checker_filter (snd entry) env t = Inr allowed"
    by (cases "checker_filter (snd entry) env t") auto
  from Cons.prems
  have rest: "\<forall>entry\<in>set rest. \<forall>err. checker_filter (snd entry) env t \<noteq> Inl err" by simp
  show ?case
    using a Cons.IH [OF rest]
    by (cases allowed)
      (simp_all add: scope_of_def append_all_step)
qed

lemma range_order_all: "range_order order \<Longrightarrow> c \<in> snd ` set order"
  by (cases c) (simp_all add: range_order_def evtPermMap_entries_def)

lemma range_checkers_allowed:
  "AllowedTargets flt1 = AllowedTargets flt2 \<Longrightarrow>
   map_sum id AllowedTargets (range_checkers env t order flt1) =
   map_sum id AllowedTargets (range_checkers env t order flt2)"
proof (induction order arbitrary: flt1 flt2)
  case Nil
  then show ?case by simp
next
  case (Cons entry rest)
  show ?case
  proof (cases "checker_filter (snd entry) env t")
    case (Inl err)
    then show ?thesis by simp
  next
    case (Inr allowed)
    show ?thesis
    proof (cases allowed)
      case None
      with Inr Cons.IH [OF Cons.prems] show ?thesis by simp
    next
      case (Some a)
      have "AllowedTargets (flt1\<lparr>AllowedTargets := append_go (AllowedTargets flt1) a\<rparr>) =
            AllowedTargets (flt2\<lparr>AllowedTargets := append_go (AllowedTargets flt2) a\<rparr>)"
        using Cons.prems by simp
      from Cons.IH [OF this] Inr Some show ?thesis by simp
    qed
  qed
qed

text \<open>
  C5. The construction of the combined filter is fail-closed. When the filter operation
  of a checker returns an error, \<open>filterForPerms\<close> returns an error that a checker
  returned and no filter; when that checker is the only one that fails, the error is its
  error. When no checker fails, the allowed targets of the result are exactly the
  filters the checkers returned that are not nil, in the order of the visit.
\<close>

theorem filterForPerms_fail_closed:
  assumes "range_order order"
  shows "(checker_filter c env t = Inl err \<longrightarrow>
            (\<exists>c' err'. checker_filter c' env t = Inl err'
               \<and> filterForPerms env order zero t flt = Inl err'))
       \<and> (checker_filter c env t = Inl err
            \<and> (\<forall>c' err'. checker_filter c' env t = Inl err' \<longrightarrow> c' = c)
          \<longrightarrow> filterForPerms env order zero t flt = Inl err)
       \<and> ((\<forall>c' err'. checker_filter c' env t \<noteq> Inl err') \<longrightarrow>
            (\<exists>res. filterForPerms env order zero t flt = Inr res
               \<and> AllowedTargets res = Some (List.map_filter (scope_of env t) order)
               \<and> (\<forall>a. a \<in> set (List.map_filter (scope_of env t) order)
                      \<longleftrightarrow> (\<exists>c'. checker_filter c' env t = Inr (Some a)))))"
proof -
  have fails: "\<exists>c' err'. checker_filter c' env t = Inl err'
      \<and> filterForPerms env order zero t flt = Inl err'"
    if "checker_filter c env t = Inl err"
  proof -
    from range_order_all [OF assms, of c] obtain entry
      where "entry \<in> set order" "snd entry = c" by auto
    with that
    have "\<exists>entry\<in>set order. \<exists>err. checker_filter (snd entry) env t = Inl err" by auto
    from range_checkers_error [OF this] show ?thesis
      unfolding filterForPerms_def Let_def by blast
  qed
  have only: "filterForPerms env order zero t flt = Inl err"
    if "checker_filter c env t = Inl err"
      and "\<forall>c' err'. checker_filter c' env t = Inl err' \<longrightarrow> c' = c"
  proof -
    from fails [OF that(1)] obtain c' err' where
      *: "checker_filter c' env t = Inl err'" "filterForPerms env order zero t flt = Inl err'"
      by blast
    with that have "c' = c" by blast
    with * that(1) show ?thesis by simp
  qed
  have ok: "\<exists>res. filterForPerms env order zero t flt = Inr res
      \<and> AllowedTargets res = Some (List.map_filter (scope_of env t) order)
      \<and> (\<forall>a. a \<in> set (List.map_filter (scope_of env t) order)
             \<longleftrightarrow> (\<exists>c'. checker_filter c' env t = Inr (Some a)))"
    if none: "\<forall>c' err'. checker_filter c' env t \<noteq> Inl err'"
  proof -
    have "\<forall>entry\<in>set order. \<forall>err. checker_filter (snd entry) env t \<noteq> Inl err"
      using none by simp
    note loop = range_checkers_ok [OF this]
    define f0 where
      "f0 = (case flt of None \<Rightarrow> \<lparr>Fields = zero, AllowedTargets = None\<rparr> | Some f \<Rightarrow> f)"
    have res: "filterForPerms env order zero t flt =
        Inr (f0\<lparr>AllowedTargets := Some (List.map_filter (scope_of env t) order)\<rparr>)"
      unfolding filterForPerms_def Let_def f0_def [symmetric]
      by (simp add: loop [of "f0\<lparr>AllowedTargets := Some []\<rparr>"] append_all_Some)
    have members: "a \<in> set (List.map_filter (scope_of env t) order)
        \<longleftrightarrow> (\<exists>c'. checker_filter c' env t = Inr (Some a))" for a
    proof
      assume "a \<in> set (List.map_filter (scope_of env t) order)"
      then obtain entry where "entry \<in> set order" "scope_of env t entry = Some a"
        by (auto simp: List.map_filter_def)
      then have "checker_filter (snd entry) env t = Inr (Some a)"
        by (auto simp: scope_of_def split: sum.splits)
      then show "\<exists>c'. checker_filter c' env t = Inr (Some a)" ..
    next
      assume "\<exists>c'. checker_filter c' env t = Inr (Some a)"
      then obtain c' where c': "checker_filter c' env t = Inr (Some a)" ..
      from range_order_all [OF assms, of c'] obtain entry
        where "entry \<in> set order" "snd entry = c'" by auto
      with c' have "entry \<in> set order \<and> scope_of env t entry = Some a"
        by (simp add: scope_of_def)
      then show "a \<in> set (List.map_filter (scope_of env t) order)"
        by (force simp: List.map_filter_def)
    qed
    from res members show ?thesis by simp
  qed
  from fails only ok show ?thesis by blast
qed

theorem filterForPerms_fail_closed_witness:
  "range_order evtPermMap_entries
   \<and> filterForPerms units_down_env evtPermMap_entries () admin None =
       Inl (Err ''provisioner unreachable'')
   \<and> map_sum id AllowedTargets (filterForPerms empty_env evtPermMap_entries () bob None) =
       Inr (Some [\<lparr>FilterType = TargetTypeTeam, Values = Some [''alpha'', ''beta'']\<rparr>,
                  \<lparr>FilterType = TargetTypePool, Values = Some [''pool1'']\<rparr>,
                  \<lparr>FilterType = TargetTypeUser, Values = Some [''bob'']\<rparr>,
                  \<lparr>FilterType = TargetTypeNode, Values = None\<rparr>,
                  \<lparr>FilterType = TargetTypeIaas, Values = Some [''ec2'']\<rparr>])"
proof -
  note filters = appPermChecker_filter_def teamPermChecker_filter_def
    servicePermChecker_filter_def serviceInstancePermChecker_filter_def
    poolPermChecker_filter_def userPermChecker_filter_def iaasPermChecker_filter_def
    containerPermChecker_filter_def nodePermChecker_filter_def rolePermChecker_filter_def
  note sample = units_down_env_def blog_env_def empty_env_def token_ContextsForPermission_def
    admin_def bob_def append_all_def
  have ro: "range_order evtPermMap_entries"
    by (simp add: range_order_def evtPermMap_entries_def)
  have fail: "checker_filter containerPermChecker units_down_env admin =
      Inl (Err ''provisioner unreachable'')"
    by (simp add: filters sample)
  have only: "\<forall>c' err'. checker_filter c' units_down_env admin = Inl err'
      \<longrightarrow> c' = containerPermChecker"
  proof (intro allI impI)
    fix c' err'
    assume "checker_filter c' units_down_env admin = Inl err'"
    then show "c' = containerPermChecker"
      by (cases c') (simp_all add: filters sample)
  qed
  have first: "filterForPerms units_down_env evtPermMap_entries () admin None =
      Inl (Err ''provisioner unreachable'')"
    using filterForPerms_fail_closed [OF ro, of containerPermChecker units_down_env admin
        "Err ''provisioner unreachable''" "()" None] fail only
    by blast
  have none: "\<forall>c' err'. checker_filter c' empty_env bob \<noteq> Inl err'"
  proof (intro allI)
    fix c' err'
    show "checker_filter c' empty_env bob \<noteq> Inl err'"
      by (cases c') (simp_all add: filters sample)
  qed
  have scopes: "List.map_filter (scope_of empty_env bob) evtPermMap_entries =
      [\<lparr>FilterType = TargetTypeTeam, Values = Some [''alpha'', ''beta'']\<rparr>,
       \<lparr>FilterType = TargetTypePool, Values = Some [''pool1'']\<rparr>,
       \<lparr>FilterType = TargetTypeUser, Values = Some [''bob'']\<rparr>,
       \<lparr>FilterType = TargetTypeNode, Values = None\<rparr>,
       \<lparr>FilterType = TargetTypeIaas, Values = Some [''ec2'']\<rparr>]"
    by (simp add: evtPermMap_entries_def scope_of_def filters sample)
  have second: "map_sum id AllowedTargets
      (filterForPerms empty_env evtPermMap_entries () bob None) =
       Inr (Some [\<lparr>FilterType = TargetTypeTeam, Values = Some [''alpha'', ''beta'']\<rparr>,
                  \<lparr>FilterType = TargetTypePool, Values = Some [''pool1'']\<rparr>,
                  \<lparr>FilterType = TargetTypeUser, Values = Some [''bob'']\<rparr>,
                  \<lparr>FilterType = TargetTypeNode, Values = None\<rparr>,
                  \<lparr>FilterType = TargetTypeIaas, Values = Some [''ec2'']\<rparr>])"
    using filterForPerms_fail_closed [OF ro, of appPermChecker empty_env bob
        "Err []" "()" None] none scopes
    by auto
  from ro first second show ?thesis by simp
qed

text \<open>
  C10. The allowed targets \<open>filterForPerms\<close> returns do not depend on the filter the
  caller passes (nil, or a filter with or without allowed targets of its own): for the
  same actor and collaborators, any two input filters give the same error or the same
  list of allowed targets.
\<close>

theorem allowed_targets_from_token_only:
  "map_sum id AllowedTargets (filterForPerms env order zero1 t flt1) =
   map_sum id AllowedTargets (filterForPerms env order zero2 t flt2)"
  unfolding filterForPerms_def Let_def
  by (rule range_checkers_allowed) simp

theorem allowed_targets_from_token_only_witness:
  "map_sum id AllowedTargets (filterForPerms empty_env evtPermMap_entries () bob None) =
   map_sum id AllowedTargets
     (filterForPerms empty_env evtPermMap_entries [] bob
        (Some \<lparr>Fields = ''kindname=app.deploy'',
               AllowedTargets = Some [\<lparr>FilterType = TargetTypeApp, Values = None\<rparr>]\<rparr>))"
  by (rule allowed_targets_from_token_only)

text \<open>
  C9. For every actor, mode and event whose target value has no \<open>/\<close>, the check
  operation of the ServiceInstance checker returns false and no error, and makes no call
  to the service-instance store.
\<close>

theorem serviceInstance_check_malformed:
  assumes "CHR ''/'' \<notin> set (Value (Target e))"
  shows "serviceInstancePermChecker_check env t r e kind = ([], Inr False)"
  using assms by (simp add: serviceInstancePermChecker_check_def SplitN2_def)

theorem serviceInstance_check_malformed_witness:
  "CHR ''/'' \<notin> set (Value (Target malformed_instance_event))
   \<and> serviceInstancePermChecker_check empty_env admin sample_request malformed_instance_event
        updateCheckKind = ([], Inr False)"
proof -
  have h: "CHR ''/'' \<notin> set (Value (Target malformed_instance_event))"
    by (simp add: malformed_instance_event_def)
  from h serviceInstance_check_malformed [OF h] show ?thesis by simp
qed

lemma serviceInstance_check_composite:
  assumes "CHR ''/'' \<in> set (Value (Target e))"
  shows "\<exists>serviceName name.
     fst (serviceInstancePermChecker_check env t r e kind) =
       [Call_getServiceInstanceOrError serviceName name]"
  using assms
  by (simp add: serviceInstancePermChecker_check_def SplitN2_def Let_def split: sum.splits)

section \<open>Properties of the handlers\<close>

lemmas checks = appPermChecker_check_def teamPermChecker_check_def servicePermChecker_check_def
  serviceInstancePermChecker_check_def poolPermChecker_check_def userPermChecker_check_def
  iaasPermChecker_check_def containerPermChecker_check_def nodePermChecker_check_def
  rolePermChecker_check_def

lemma checker_check_calls:
  "\<not> check_performed (fst (checker_check c env t r e kind))
   \<and> \<not> cancel_requested (fst (checker_check c env t r e kind))"
  by (cases c)
    (simp_all add: checks check_performed_def cancel_requested_def Let_def
      split: sum.splits option.splits)

text \<open>
  C4, as amended. Fetching one event by id returns the bad-request error (400) when the
  id is not a valid identifier, and the not-found error (404) when a valid identifier
  matches no stored event. For a stored event, the result is the unauthorized error
  when no checker is registered for the target type or the Read check denies, the error
  of the check when it fails, and otherwise the encoded event.
\<close>

theorem eventInfo_outcomes:
  "(\<not> IsObjectIdHex env (query_uuid r) \<longrightarrow>
      snd (eventInfo env r t) =
        Inl (HTTP StatusBadRequest (''uuid parameter is not ObjectId: '' @ query_uuid r)))
   \<and> (IsObjectIdHex env (query_uuid r) \<and> GetByID env (query_uuid r) = Inl err \<longrightarrow>
      snd (eventInfo env r t) = Inl (HTTP StatusNotFound (Error env err)))
   \<and> (IsObjectIdHex env (query_uuid r) \<and> GetByID env (query_uuid r) = Inr e \<longrightarrow>
        (evtPermMap (Type (Target e)) = None \<longrightarrow>
           snd (eventInfo env r t) = Inl ErrUnauthorized)
      \<and> (evtPermMap (Type (Target e)) = Some checker \<longrightarrow>
           (snd (checker_check checker env t r e readCheckKind) = Inr False \<longrightarrow>
              snd (eventInfo env r t) = Inl ErrUnauthorized)
         \<and> (snd (checker_check checker env t r e readCheckKind) = Inl err' \<longrightarrow>
              snd (eventInfo env r t) = Inl err')
         \<and> (snd (checker_check checker env t r e readCheckKind) = Inr True \<longrightarrow>
              snd (eventInfo env r t) = Inr (Encode e))))"
  by (simp add: eventInfo_def Let_def split: prod.splits)

theorem eventInfo_outcomes_witness:
  "snd (eventInfo events_env \<lparr>query_uuid = ''alpha'', form_reason = []\<rparr> carol) =
     Inl (HTTP 400 ''uuid parameter is not ObjectId: alpha'')
   \<and> snd (eventInfo events_env \<lparr>query_uuid = ''5f1a00000000000000000003'', form_reason = []\<rparr> carol) =
       Inl (HTTP 404 ''event not found'')
   \<and> snd (eventInfo events_env \<lparr>query_uuid = ''5f1a00000000000000000001'', form_reason = []\<rparr> alice) =
       Inl ErrUnauthorized
   \<and> snd (eventInfo events_env \<lparr>query_uuid = ''5f1a00000000000000000001'', form_reason = []\<rparr> carol) =
       Inr (Encode \<lparr>UniqueID = ''5f1a00000000000000000001'',
                     Target = \<lparr>Type = TargetTypeTeam, Value = ''alpha''\<rparr>\<rparr>)"
proof -
  note sample = events_env_def blog_env_def empty_env_def hex_ObjectId_def
    token_Check_def carol_def alice_def teamPermChecker_check_def
    evtPermMap_def evtPermMap_entries_def
    StatusBadRequest_def StatusNotFound_def
  let ?e = "\<lparr>UniqueID = ''5f1a00000000000000000001'',
              Target = \<lparr>Type = TargetTypeTeam, Value = ''alpha''\<rparr>\<rparr>"
  have invalid: "snd (eventInfo events_env \<lparr>query_uuid = ''alpha'', form_reason = []\<rparr> carol) =
      Inl (HTTP 400 ''uuid parameter is not ObjectId: alpha'')"
    using eventInfo_outcomes [of events_env "\<lparr>query_uuid = ''alpha'', form_reason = []\<rparr>" carol]
    by (simp add: sample)
  have missing: "snd (eventInfo events_env \<lparr>query_uuid = ''5f1a00000000000000000003'', form_reason = []\<rparr> carol) =
      Inl (HTTP 404 ''event not found'')"
    using eventInfo_outcomes [of events_env "\<lparr>query_uuid = ''5f1a00000000000000000003'', form_reason = []\<rparr>" carol
        "Err ''event not found''"]
    by (simp add: sample)
  have denied: "snd (eventInfo events_env \<lparr>query_uuid = ''5f1a00000000000000000001'', form_reason = []\<rparr> alice) =
      Inl ErrUnauthorized"
    using eventInfo_outcomes [of events_env "\<lparr>query_uuid = ''5f1a00000000000000000001'', form_reason = []\<rparr>" alice
        _ ?e teamPermChecker _]
    by (simp add: sample)
  have allowed: "snd (eventInfo events_env \<lparr>query_uuid = ''5f1a00000000000000000001'', form_reason = []\<rparr> carol) =
      Inr (Encode ?e)"
    using eventInfo_outcomes [of events_env "\<lparr>query_uuid = ''5f1a00000000000000000001'', form_reason = []\<rparr>" carol
        _ ?e teamPermChecker _]
    by (simp add: sample)
  from invalid missing denied allowed show ?thesis by simp
qed

theorem eventInfo_outcomes_counterexample:
  "\<not> IsObjectIdHex empty_env ''not-an-id''
   \<and> eventInfo empty_env \<lparr>query_uuid = ''not-an-id'', form_reason = []\<rparr> alice =
       ([], Inl (HTTP 400 ''uuid parameter is not ObjectId: not-an-id''))"
  by (simp add: eventInfo_def empty_env_def hex_ObjectId_def StatusBadRequest_def)

text \<open>
  C6. Event cancellation, for a well-formed id, checks in this order. When the id does
  not resolve to a stored event the result is not-found, and neither a permission check
  nor a cancel request is made. Otherwise, when the reason is empty the result is
  bad-request and no permission check is made. Otherwise, when no checker is registered
  or the Update check denies, the result is unauthorized and no cancel is requested.
  When the check grants, the cancel is requested with the reason and the actor's name:
  a "not cancelable" failure becomes a bad-request error, success is 204. A cancel is
  requested only when the event was found, the reason is not empty and the check
  granted.
\<close>

theorem eventCancel_order:
  assumes "IsObjectIdHex env (query_uuid r)"
  shows "(GetByID env (query_uuid r) = Inl err \<longrightarrow>
            snd (eventCancel env r t) = Inl (HTTP StatusNotFound (Error env err))
            \<and> \<not> check_performed (fst (eventCancel env r t))
            \<and> \<not> cancel_requested (fst (eventCancel env r t)))
       \<and> (GetByID env (query_uuid r) = Inr e \<and> form_reason r = [] \<longrightarrow>
            snd (eventCancel env r t) = Inl (HTTP StatusBadRequest ''reason is mandatory'')
            \<and> \<not> check_performed (fst (eventCancel env r t))
            \<and> \<not> cancel_requested (fst (eventCancel env r t)))
       \<and> (GetByID env (query_uuid r) = Inr e \<and> form_reason r \<noteq> []
            \<and> (evtPermMap (Type (Target e)) = None
               \<or> evtPermMap (Type (Target e)) = Some checker
                 \<and> snd (checker_check checker env t r e updateCheckKind) = Inr False)
          \<longrightarrow> snd (eventCancel env r t) = Inl ErrUnauthorized
            \<and> \<not> cancel_requested (fst (eventCancel env r t)))
       \<and> (GetByID env (query_uuid r) = Inr e \<and> form_reason r \<noteq> []
            \<and> evtPermMap (Type (Target e)) = Some checker
            \<and> snd (checker_check checker env t r e updateCheckKind) = Inr True
          \<longrightarrow> cancel_requested (fst (eventCancel env r t))
            \<and> last (fst (eventCancel env r t)) = Call_TryCancel (form_reason r) (userName t)
            \<and> (TryCancel env e (form_reason r) (userName t) = Some ErrNotCancelable \<longrightarrow>
                 snd (eventCancel env r t) =
                   Inl (HTTP StatusBadRequest (Error env ErrNotCancelable)))
            \<and> (TryCancel env e (form_reason r) (userName t) = None \<longrightarrow>
                 snd (eventCancel env r t) = Inr (WriteHeader StatusNoContent)))
       \<and> (cancel_requested (fst (eventCancel env r t)) \<longrightarrow>
            (\<exists>e' checker'. GetByID env (query_uuid r) = Inr e' \<and> form_reason r \<noteq> []
               \<and> evtPermMap (Type (Target e')) = Some checker'
               \<and> snd (checker_check checker' env t r e' updateCheckKind) = Inr True))"
proof -
  have calls: "\<not> check_performed calls \<and> \<not> cancel_requested calls"
    if "checker_check c env t r ev updateCheckKind = (calls, res)" for c ev calls res
    using checker_check_calls [of c env t r ev updateCheckKind] that by simp
  have missing: "snd (eventCancel env r t) = Inl (HTTP StatusNotFound (Error env err))
      \<and> \<not> check_performed (fst (eventCancel env r t))
      \<and> \<not> cancel_requested (fst (eventCancel env r t))"
    if "GetByID env (query_uuid r) = Inl err"
    using assms that
    by (simp add: eventCancel_def Let_def check_performed_def cancel_requested_def)
  have empty: "snd (eventCancel env r t) = Inl (HTTP StatusBadRequest ''reason is mandatory'')
      \<and> \<not> check_performed (fst (eventCancel env r t))
      \<and> \<not> cancel_requested (fst (eventCancel env r t))"
    if "GetByID env (query_uuid r) = Inr e" "form_reason r = []"
    using assms that
    by (simp add: eventCancel_def Let_def check_performed_def cancel_requested_def)
  have denied: "snd (eventCancel env r t) = Inl ErrUnauthorized
      \<and> \<not> cancel_requested (fst (eventCancel env r t))"
    if "GetByID env (query_uuid r) = Inr e" "form_reason r \<noteq> []"
      "evtPermMap (Type (Target e)) = None
       \<or> evtPermMap (Type (Target e)) = Some checker
         \<and> snd (checker_check checker env t r e updateCheckKind) = Inr False"
    using that(3)
  proof
    assume "evtPermMap (Type (Target e)) = None"
    with assms that(1,2) show ?thesis
      by (simp add: eventCancel_def Let_def cancel_requested_def)
  next
    assume c: "evtPermMap (Type (Target e)) = Some checker
         \<and> snd (checker_check checker env t r e updateCheckKind) = Inr False"
    obtain calls res where
      cr: "checker_check checker env t r e updateCheckKind = (calls, res)"
      by (cases "checker_check checker env t r e updateCheckKind")
    with c have res: "res = Inr False" by simp
    from calls [OF cr] have "\<not> cancel_requested calls" by simp
    with assms that(1,2) c cr res show ?thesis
      by (simp add: eventCancel_def Let_def cancel_requested_def)
  qed
  have granted: "cancel_requested (fst (eventCancel env r t))
      \<and> last (fst (eventCancel env r t)) = Call_TryCancel (form_reason r) (userName t)
      \<and> (TryCancel env e (form_reason r) (userName t) = Some ErrNotCancelable \<longrightarrow>
           snd (eventCancel env r t) =
             Inl (HTTP StatusBadRequest (Error env ErrNotCancelable)))
      \<and> (TryCancel env e (form_reason r) (userName t) = None \<longrightarrow>
           snd (eventCancel env r t) = Inr (WriteHeader StatusNoContent))"
    if "GetByID env (query_uuid r) = Inr e" "form_reason r \<noteq> []"
      "evtPermMap (Type (Target e)) = Some checker"
      "snd (checker_check checker env t r e updateCheckKind) = Inr True"
  proof -
    obtain calls res where
      cr: "checker_check checker env t r e updateCheckKind = (calls, res)"
      by (cases "checker_check checker env t r e updateCheckKind")
    with that(4) have res: "res = Inr True" by simp
    from assms that(1,2,3) cr res show ?thesis
      by (simp add: eventCancel_def Let_def cancel_requested_def split: option.splits)
  qed
  have only: "\<exists>e' checker'. GetByID env (query_uuid r) = Inr e' \<and> form_reason r \<noteq> []
      \<and> evtPermMap (Type (Target e')) = Some checker'
      \<and> snd (checker_check checker' env t r e' updateCheckKind) = Inr True"
    if req: "cancel_requested (fst (eventCancel env r t))"
  proof (cases "GetByID env (query_uuid r)")
    case (Inl err')
    with assms req show ?thesis
      by (simp add: eventCancel_def Let_def cancel_requested_def)
  next
    case (Inr e')
    show ?thesis
    proof (cases "form_reason r = []")
      case True
      with assms req Inr show ?thesis
        by (simp add: eventCancel_def Let_def cancel_requested_def)
    next
      case False
      show ?thesis
      proof (cases "evtPermMap (Type (Target e'))")
        case None
        with assms req Inr False show ?thesis
          by (simp add: eventCancel_def Let_def cancel_requested_def)
      next
        case (Some checker')
        obtain calls res where
          cr: "checker_check checker' env t r e' updateCheckKind = (calls, res)"
          by (cases "checker_check checker' env t r e' updateCheckKind")
        from calls [OF cr] have nc: "\<not> cancel_requested calls" by simp
        have "res = Inr True"
        proof (rule ccontr)
          assume "res \<noteq> Inr True"
          then have "res = Inr False \<or> (\<exists>err'. res = Inl err')"
            by (cases res) auto
          with assms req Inr False Some cr nc show False
            by (auto simp: eventCancel_def Let_def cancel_requested_def)
        qed
        with Inr False Some cr show ?thesis by simp
      qed
    qed
  qed
  from missing empty denied granted only show ?thesis by blast
qed

theorem eventCancel_order_witness:
  "IsObjectIdHex events_env ''5f1a00000000000000000001''
   \<and> snd (eventCancel events_env \<lparr>query_uuid = ''5f1a00000000000000000003'', form_reason = ''stuck''\<rparr> carol) =
       Inl (HTTP 404 ''event not found'')
   \<and> snd (eventCancel events_env \<lparr>query_uuid = ''5f1a00000000000000000001'', form_reason = []\<rparr> carol) =
       Inl (HTTP 400 ''reason is mandatory'')
   \<and> \<not> check_performed
         (fst (eventCancel events_env \<lparr>query_uuid = ''5f1a00000000000000000001'', form_reason = []\<rparr> carol))
   \<and> snd (eventCancel events_env \<lparr>query_uuid = ''5f1a00000000000000000001'', form_reason = ''stuck''\<rparr> alice) =
       Inl ErrUnauthorized
   \<and> \<not> cancel_requested
         (fst (eventCancel events_env \<lparr>query_uuid = ''5f1a00000000000000000001'', form_reason = ''stuck''\<rparr> alice))
   \<and> snd (eventCancel events_env \<lparr>query_uuid = ''5f1a00000000000000000001'', form_reason = ''stuck''\<rparr> carol) =
       Inr (WriteHeader 204)
   \<and> last (fst (eventCancel events_env \<lparr>query_uuid = ''5f1a00000000000000000001'', form_reason = ''stuck''\<rparr> carol)) =
       Call_TryCancel ''stuck'' ''carol''
   \<and> snd (eventCancel events_env \<lparr>query_uuid = ''5f1a00000000000000000002'', form_reason = ''stuck''\<rparr> carol) =
       Inl (HTTP 400 ''not cancelable'')"
proof -
  note sample = events_env_def blog_env_def empty_env_def hex_ObjectId_def
    token_Check_def carol_def alice_def teamPermChecker_check_def
    evtPermMap_def evtPermMap_entries_def
    StatusBadRequest_def StatusNotFound_def StatusNoContent_def
  let ?e1 = "\<lparr>UniqueID = ''5f1a00000000000000000001'', Target = \<lparr>Type = TargetTypeTeam, Value = ''alpha''\<rparr>\<rparr>"
  let ?e2 = "\<lparr>UniqueID = ''5f1a00000000000000000002'', Target = \<lparr>Type = TargetTypeTeam, Value = ''alpha''\<rparr>\<rparr>"
  have valid: "IsObjectIdHex events_env ''5f1a00000000000000000001''" "IsObjectIdHex events_env ''5f1a00000000000000000002''"
    "IsObjectIdHex events_env ''5f1a00000000000000000003''"
    by (simp_all add: sample)
  have missing: "snd (eventCancel events_env
        \<lparr>query_uuid = ''5f1a00000000000000000003'', form_reason = ''stuck''\<rparr> carol) =
       Inl (HTTP 404 ''event not found'')"
    using eventCancel_order [of events_env "\<lparr>query_uuid = ''5f1a00000000000000000003'', form_reason = ''stuck''\<rparr>"
        "Err ''event not found''" carol] valid
    by (simp add: sample)
  have empty: "snd (eventCancel events_env \<lparr>query_uuid = ''5f1a00000000000000000001'', form_reason = []\<rparr> carol) =
       Inl (HTTP 400 ''reason is mandatory'')
     \<and> \<not> check_performed
         (fst (eventCancel events_env \<lparr>query_uuid = ''5f1a00000000000000000001'', form_reason = []\<rparr> carol))"
    using eventCancel_order [of events_env "\<lparr>query_uuid = ''5f1a00000000000000000001'', form_reason = []\<rparr>"
        _ carol ?e1] valid
    by (simp add: sample)
  have denied: "snd (eventCancel events_env
        \<lparr>query_uuid = ''5f1a00000000000000000001'', form_reason = ''stuck''\<rparr> alice) = Inl ErrUnauthorized
     \<and> \<not> cancel_requested
         (fst (eventCancel events_env \<lparr>query_uuid = ''5f1a00000000000000000001'', form_reason = ''stuck''\<rparr> alice))"
    using eventCancel_order [of events_env "\<lparr>query_uuid = ''5f1a00000000000000000001'', form_reason = ''stuck''\<rparr>"
        _ alice ?e1 teamPermChecker] valid
    by (simp add: sample)
  have granted: "snd (eventCancel events_env
        \<lparr>query_uuid = ''5f1a00000000000000000001'', form_reason = ''stuck''\<rparr> carol) = Inr (WriteHeader 204)
     \<and> last (fst (eventCancel events_env
          \<lparr>query_uuid = ''5f1a00000000000000000001'', form_reason = ''stuck''\<rparr> carol)) =
       Call_TryCancel ''stuck'' ''carol''"
    using eventCancel_order [of events_env "\<lparr>query_uuid = ''5f1a00000000000000000001'', form_reason = ''stuck''\<rparr>"
        _ carol ?e1 teamPermChecker] valid
    by (simp add: sample)
  have finished: "snd (eventCancel events_env
        \<lparr>query_uuid = ''5f1a00000000000000000002'', form_reason = ''stuck''\<rparr> carol) =
       Inl (HTTP 400 ''not cancelable'')"
    using eventCancel_order [of events_env "\<lparr>query_uuid = ''5f1a00000000000000000002'', form_reason = ''stuck''\<rparr>"
        _ carol ?e2 teamPermChecker] valid
    by (simp add: sample)
  from valid(1) missing empty denied granted finished show ?thesis by simp
qed

section \<open>Listing and check\<close>

lemma collect_contexts_member:
  assumes "collect_contexts own ctxs None = Some xs" and "x \<in> set xs"
  shows "Context own x \<in> set ctxs"
proof (cases "\<exists>ctx\<in>set ctxs. CtxType ctx = CtxGlobal")
  case True
  from collect_contexts_global [OF True, of own None] assms(1) show ?thesis by simp
next
  case False
  then have ng: "\<forall>ctx\<in>set ctxs. CtxType ctx \<noteq> CtxGlobal" by simp
  from collect_contexts_no_global [OF ng, of own None] assms(1)
  have "xs = map CtxValue (filter (\<lambda>ctx. CtxType ctx = own) ctxs)"
    by (simp add: append_all_None split: if_splits)
  with assms(2) obtain ctx where c: "ctx \<in> set ctxs" "CtxType ctx = own" "CtxValue ctx = x"
    by auto
  have "Context (CtxType ctx) (CtxValue ctx) = ctx" by simp
  with c show ?thesis by simp
qed

text \<open>
  C1, as amended. Assume that permission evaluation grants a scheme within a set of
  contexts that contains a context the actor holds for the scheme. Then for the Team,
  Pool and IaaS kinds: if an identity X is among the values of the filter the kind's
  filter operation returns, the kind's check operation with Read mode on an event whose
  target value is X returns true, provided (for Team and Pool) that the owning store
  resolves X to the entity of that name.
\<close>

theorem listing_check_consistency:
  assumes held: "\<And>scheme ctx contexts.
      ctx \<in> set (ContextsForPermission env t scheme) \<Longrightarrow> ctx \<in> set contexts \<Longrightarrow>
      Check env t scheme contexts"
    and target: "Value (Target e) = x"
  shows "(teamPermChecker_filter env t = Inr (Some f) \<and> Values f = Some xs \<and> x \<in> set xs
            \<and> GetTeam env x = Inr tm \<and> TeamName tm = x
          \<longrightarrow> snd (teamPermChecker_check env t r e readCheckKind) = Inr True)
       \<and> (poolPermChecker_filter env t = Inr (Some f) \<and> Values f = Some xs \<and> x \<in> set xs
            \<and> GetPoolByName env x = Inr p \<and> PoolName p = x
          \<longrightarrow> snd (poolPermChecker_check env t r e readCheckKind) = Inr True)
       \<and> (iaasPermChecker_filter env t = Inr (Some f) \<and> Values f = Some xs \<and> x \<in> set xs
          \<longrightarrow> snd (iaasPermChecker_check env t r e readCheckKind) = Inr True)"
proof -
  have team: "snd (teamPermChecker_check env t r e readCheckKind) = Inr True"
    if "teamPermChecker_filter env t = Inr (Some f)" "Values f = Some xs" "x \<in> set xs"
      "GetTeam env x = Inr tm" "TeamName tm = x"
  proof -
    from that(1,2)
    have "collect_contexts CtxTeam (ContextsForPermission env t PermTeamReadEvents) None =
        Some xs"
      by (auto simp: teamPermChecker_filter_def Let_def split: if_splits)
    from collect_contexts_member [OF this that(3)]
    have "Check env t PermTeamReadEvents [Context CtxTeam x]"
      by (rule held) simp
    with that(4,5) target show ?thesis
      by (simp add: teamPermChecker_check_def)
  qed
  have pool: "snd (poolPermChecker_check env t r e readCheckKind) = Inr True"
    if "poolPermChecker_filter env t = Inr (Some f)" "Values f = Some xs" "x \<in> set xs"
      "GetPoolByName env x = Inr p" "PoolName p = x"
  proof -
    from that(1,2)
    have "collect_contexts CtxPool (ContextsForPermission env t PermPoolReadEvents) None =
        Some xs"
      by (auto simp: poolPermChecker_filter_def Let_def split: if_splits)
    from collect_contexts_member [OF this that(3)]
    have "Check env t PermPoolReadEvents [Context CtxPool x]"
      by (rule held) simp
    with that(4,5) target show ?thesis
      by (simp add: poolPermChecker_check_def)
  qed
  have iaas: "snd (iaasPermChecker_check env t r e readCheckKind) = Inr True"
    if "iaasPermChecker_filter env t = Inr (Some f)" "Values f = Some xs" "x \<in> set xs"
  proof -
    from that(1,2)
    have "collect_contexts CtxIaaS (ContextsForPermission env t PermMachineReadEvents) None =
        Some xs"
      by (auto simp: iaasPermChecker_filter_def Let_def split: if_splits)
    from collect_contexts_member [OF this that(3)]
    have "Check env t PermMachineReadEvents [Context CtxIaaS x]"
      by (rule held) simp
    with target show ?thesis
      by (simp add: iaasPermChecker_check_def)
  qed
  from team pool iaas show ?thesis by blast
qed

theorem listing_check_consistency_witness:
  "teamPermChecker_filter events_env carol =
     Inr (Some \<lparr>FilterType = TargetTypeTeam, Values = Some [''alpha'']\<rparr>)
   \<and> GetTeam events_env ''alpha'' = Inr \<lparr>TeamName = ''alpha''\<rparr>
   \<and> snd (teamPermChecker_check events_env carol sample_request
        \<lparr>UniqueID = ''5f1a00000000000000000001'', Target = \<lparr>Type = TargetTypeTeam, Value = ''alpha''\<rparr>\<rparr>
        readCheckKind) = Inr True
   \<and> iaasPermChecker_filter events_env bob =
     Inr (Some \<lparr>FilterType = TargetTypeIaas, Values = Some [''ec2'']\<rparr>)
   \<and> snd (iaasPermChecker_check events_env bob sample_request
        \<lparr>UniqueID = ''5f1a00000000000000000003'', Target = \<lparr>Type = TargetTypeIaas, Value = ''ec2''\<rparr>\<rparr>
        readCheckKind) = Inr True"
proof -
  note sample = events_env_def blog_env_def empty_env_def token_ContextsForPermission_def
    carol_def bob_def
  have held: "Check events_env t scheme contexts"
    if "ctx \<in> set (ContextsForPermission events_env t scheme)" "ctx \<in> set contexts"
    for t scheme ctx contexts
    using that
    by (auto simp: events_env_def blog_env_def empty_env_def token_ContextsForPermission_def
        token_Check_def list_ex_iff)
  have tf: "teamPermChecker_filter events_env carol =
      Inr (Some \<lparr>FilterType = TargetTypeTeam, Values = Some [''alpha'']\<rparr>)"
    by (simp add: teamPermChecker_filter_def sample)
  have gt: "GetTeam events_env ''alpha'' = Inr \<lparr>TeamName = ''alpha''\<rparr>"
    by (simp add: sample)
  have inf: "iaasPermChecker_filter events_env bob =
      Inr (Some \<lparr>FilterType = TargetTypeIaas, Values = Some [''ec2'']\<rparr>)"
    by (simp add: iaasPermChecker_filter_def sample)
  have team: "snd (teamPermChecker_check events_env carol sample_request
        \<lparr>UniqueID = ''5f1a00000000000000000001'', Target = \<lparr>Type = TargetTypeTeam, Value = ''alpha''\<rparr>\<rparr>
        readCheckKind) = Inr True"
    using listing_check_consistency [of events_env carol
        "\<lparr>UniqueID = ''5f1a00000000000000000001'', Target = \<lparr>Type = TargetTypeTeam, Value = ''alpha''\<rparr>\<rparr>"
        "''alpha''" "\<lparr>FilterType = TargetTypeTeam, Values = Some [''alpha'']\<rparr>"
        "[''alpha'']" "\<lparr>TeamName = ''alpha''\<rparr>" sample_request] held tf gt
    by simp
  have iaas: "snd (iaasPermChecker_check events_env bob sample_request
        \<lparr>UniqueID = ''5f1a00000000000000000003'', Target = \<lparr>Type = TargetTypeIaas, Value = ''ec2''\<rparr>\<rparr>
        readCheckKind) = Inr True"
    using listing_check_consistency [of events_env bob
        "\<lparr>UniqueID = ''5f1a00000000000000000003'', Target = \<lparr>Type = TargetTypeIaas, Value = ''ec2''\<rparr>\<rparr>"
        "''ec2''" "\<lparr>FilterType = TargetTypeIaas, Values = Some [''ec2'']\<rparr>"
        "[''ec2'']" _ sample_request] held inf
    by simp
  from tf gt team inf iaas show ?thesis by simp
qed

theorem listing_check_consistency_counterexample:
  "userPermChecker_filter empty_env alice =
     Inr (Some \<lparr>FilterType = TargetTypeUser, Values = Some [''alice'']\<rparr>)
   \<and> userPermChecker_check empty_env alice sample_request
        \<lparr>UniqueID = ''5f1a00000000000000000001'', Target = \<lparr>Type = TargetTypeUser, Value = ''alice''\<rparr>\<rparr>
        readCheckKind = ([], Inr False)"
  by (simp add: userPermChecker_filter_def userPermChecker_check_def empty_env_def
      token_ContextsForPermission_def token_Check_def alice_def)

section \<open>The order of the visit\<close>

lemma filterForPerms_ok:
  assumes "\<forall>entry\<in>set order. \<forall>err. checker_filter (snd entry) env t \<noteq> Inl err"
  shows "filterForPerms env order zero t flt =
     Inr ((case flt of None \<Rightarrow> \<lparr>Fields = zero, AllowedTargets = None\<rparr> | Some f \<Rightarrow> f)
       \<lparr>AllowedTargets := Some (List.map_filter (scope_of env t) order)\<rparr>)"
  by (simp add: filterForPerms_def Let_def range_checkers_ok [OF assms] append_all_Some)

lemma filterForPerms_error_iff:
  assumes "range_order order"
  shows "(\<exists>err. filterForPerms env order zero t flt = Inl err)
     \<longleftrightarrow> (\<exists>c err. checker_filter c env t = Inl err)"
proof
  assume "\<exists>err. filterForPerms env order zero t flt = Inl err"
  then obtain err where err: "filterForPerms env order zero t flt = Inl err" ..
  show "\<exists>c err. checker_filter c env t = Inl err"
  proof (rule ccontr)
    assume "\<not> (\<exists>c err. checker_filter c env t = Inl err)"
    then have "\<forall>entry\<in>set order. \<forall>err. checker_filter (snd entry) env t \<noteq> Inl err"
      by simp
    from filterForPerms_ok [OF this, of zero flt] err show False
      by simp
  qed
next
  assume "\<exists>c err. checker_filter c env t = Inl err"
  then obtain c err where c: "checker_filter c env t = Inl err" by blast
  from range_order_all [OF assms, of c] obtain entry
    where "entry \<in> set order" "snd entry = c" by auto
  with c have "\<exists>entry\<in>set order. \<exists>err. checker_filter (snd entry) env t = Inl err"
    by auto
  from range_checkers_error [OF this]
  show "\<exists>err. filterForPerms env order zero t flt = Inl err"
    unfolding filterForPerms_def Let_def by blast
qed

lemma scope_members:
  assumes "range_order order"
  shows "a \<in> set (List.map_filter (scope_of env t) order)
     \<longleftrightarrow> (\<exists>c. checker_filter c env t = Inr (Some a))"
proof
  assume "a \<in> set (List.map_filter (scope_of env t) order)"
  then obtain entry where "entry \<in> set order" "scope_of env t entry = Some a"
    by (auto simp: List.map_filter_def)
  then have "checker_filter (snd entry) env t = Inr (Some a)"
    by (auto simp: scope_of_def split: sum.splits)
  then show "\<exists>c. checker_filter c env t = Inr (Some a)" ..
next
  assume "\<exists>c. checker_filter c env t = Inr (Some a)"
  then obtain c where c: "checker_filter c env t = Inr (Some a)" ..
  from range_order_all [OF assms, of c] obtain entry
    where "entry \<in> set order" "snd entry = c" by auto
  with c have "entry \<in> set order \<and> scope_of env t entry = Some a"
    by (simp add: scope_of_def)
  then show "a \<in> set (List.map_filter (scope_of env t) order)"
    by (force simp: List.map_filter_def)
qed

lemma filterForPerms_allowed_set:
  assumes "range_order order" and "filterForPerms env order zero t flt = Inr res"
  shows "\<exists>ats. AllowedTargets res = Some ats
     \<and> set ats = {a. \<exists>c. checker_filter c env t = Inr (Some a)}"
proof -
  from filterForPerms_error_iff [OF assms(1), of env zero t flt] assms(2)
  have "\<forall>entry\<in>set order. \<forall>err. checker_filter (snd entry) env t \<noteq> Inl err"
    by auto
  from filterForPerms_ok [OF this, of zero flt] assms(2)
  have "AllowedTargets res = Some (List.map_filter (scope_of env t) order)"
    by auto
  with scope_members [OF assms(1), of _ env t] show ?thesis by auto
qed

text \<open>
  The order of the visit does not matter to the outcome: two arrangements of the
  registry fail together, and otherwise give the same set of allowed targets.
\<close>

lemma filterForPerms_any_order:
  assumes "range_order order1" and "range_order order2"
  shows "((\<exists>err. filterForPerms env order1 zero1 t flt1 = Inl err)
           \<longleftrightarrow> (\<exists>err. filterForPerms env order2 zero2 t flt2 = Inl err))
       \<and> (filterForPerms env order1 zero1 t flt1 = Inr res1
            \<and> filterForPerms env order2 zero2 t flt2 = Inr res2
          \<longrightarrow> (\<exists>ats1 ats2. AllowedTargets res1 = Some ats1 \<and> AllowedTargets res2 = Some ats2
                \<and> set ats1 = set ats2))"
  using filterForPerms_error_iff [OF assms(1), of env zero1 t flt1]
    filterForPerms_error_iff [OF assms(2), of env zero2 t flt2]
    filterForPerms_allowed_set [OF assms(1), of env zero1 t flt1 res1]
    filterForPerms_allowed_set [OF assms(2), of env zero2 t flt2 res2]
  by auto

section \<open>Loops that append nothing\<close>

text \<open>
  What the filter operations return where the loops append nothing: the Role checker
  never appends, and the Team, Pool and IaaS checkers append nothing when the actor
  holds no context of their own type. The values are then nil, as for a Global context.
\<close>

lemma rolePermChecker_filter_values:
  "ContextsForPermission env t PermRoleReadEvents \<noteq> [] \<Longrightarrow>
   rolePermChecker_filter env t = Inr (Some \<lparr>FilterType = TargetTypeRole, Values = None\<rparr>)"
proof -
  have "global_resets ctxs None = None" for ctxs
    by (induction ctxs) simp_all
  then show "ContextsForPermission env t PermRoleReadEvents \<noteq> [] \<Longrightarrow>
   rolePermChecker_filter env t = Inr (Some \<lparr>FilterType = TargetTypeRole, Values = None\<rparr>)"
    by (simp add: rolePermChecker_filter_def)
qed

lemma collect_contexts_none_of_own:
  "\<forall>ctx\<in>set ctxs. CtxType ctx \<noteq> own \<Longrightarrow> collect_contexts own ctxs None = None"
  by (induction ctxs) auto

lemma teamPermChecker_filter_no_team_context:
  assumes "ContextsForPermission env t PermTeamReadEvents \<noteq> []"
    and "\<forall>ctx\<in>set (ContextsForPermission env t PermTeamReadEvents). CtxType ctx \<noteq> CtxTeam"
  shows "teamPermChecker_filter env t =
     Inr (Some \<lparr>FilterType = TargetTypeTeam, Values = None\<rparr>)"
  using assms by (simp add: teamPermChecker_filter_def collect_contexts_none_of_own)

end
